theory Spec2Isabelle
  imports Complex_Main "HOL-Library.Multiset" "HOL-Library.Sublist"
begin

section \<open>Vibe Commerce: the hybrid product search and the batch vectorization\<close>

text \<open>
  A shallow embedding of the vectorize service (\<^verbatim>\<open>services/vectorize.ts\<close>), the
  Gemini embedding adapter (\<^verbatim>\<open>services/gemini.ts\<close>), the search route
  (\<^verbatim>\<open>routes/search.ts\<close>), its request schema (\<^verbatim>\<open>utils/ai-validation.ts\<close>)
  and the batch script (\<^verbatim>\<open>scripts/vectorize-products.ts\<close>).

  Conventions of the embedding.
  \<^item> A JavaScript \<^verbatim>\<open>number\<close> that holds a score or a vector component is a
    \<^typ>\<open>real\<close>: rounding, overflow and NaN of IEEE doubles are outside the model.
    The one function whose result turns on a rounded comparison,
    \<^verbatim>\<open>filterSimilarResults\<close>, takes the arithmetic of its numbers as a parameter
    instead. Counts and indices are \<^typ>\<open>nat\<close> or \<^typ>\<open>int\<close>.
  \<^item> A JavaScript string is a \<^typ>\<open>string\<close> of 8-bit characters; case folding is the
    ASCII one.
  \<^item> A \<^verbatim>\<open>throw\<close> or a rejected promise is the \<open>Inl\<close> branch of a sum.
\<close>

subsection \<open>Errors\<close>

datatype issue_code = invalid_type | too_small | too_big

datatype error =
    VectorLengthError
  | ProviderError string
  | CatalogStoreError string
  | ZodError "(string \<times> issue_code) list"

text \<open>
  \<open>VectorLengthError\<close> is \<^verbatim>\<open>new Error('Vectors must have the same length')\<close>;
  \<open>ProviderError\<close> is a rejection of the embedding provider's \<^verbatim>\<open>embedContent\<close>,
  \<open>CatalogStoreError\<close> a rejection of a D1 statement, \<open>ZodError\<close> what
  \<^verbatim>\<open>schema.parse\<close> throws, with the path and the code of every issue.
\<close>

subsection \<open>Vectorize service\<close>

text \<open>The \<^verbatim>\<open>for\<close> loop of \<^verbatim>\<open>cosineSimilarity\<close>: the three running sums.\<close>

fun cosine_sums :: "real list \<Rightarrow> real list \<Rightarrow> real \<times> real \<times> real \<Rightarrow> real \<times> real \<times> real" where
  "cosine_sums (a # as) (b # bs) (dotProduct, normA, normB) =
     cosine_sums as bs (dotProduct + a * b, normA + a * a, normB + b * b)"
| "cosine_sums _ _ acc = acc"

definition cosineSimilarity :: "real list \<Rightarrow> real list \<Rightarrow> error + real" where
  "cosineSimilarity vecA vecB =
     (if length vecA \<noteq> length vecB then Inl VectorLengthError
      else
        (case cosine_sums vecA vecB (0, 0, 0) of
           (dotProduct, sumA, sumB) \<Rightarrow>
             let normA = sqrt sumA; normB = sqrt sumB in
             if normA = 0 \<or> normB = 0 then Inr 0
             else Inr (dotProduct / (normA * normB))))"

text \<open>
  \<^verbatim>\<open>T extends { similarity: number }\<close> is a record scheme over the one field, for a
  type \<open>'n\<close> of numbers; the entries \<^verbatim>\<open>{ id, similarity, data }\<close> that
  \<^verbatim>\<open>findTopKSimilar\<close> returns extend it, with a real score.
\<close>

record 'n with_similarity =
  similarity :: 'n

record 'd scored = "real with_similarity" +
  res_id :: string
  res_data :: 'd

record 'd candidate =
  item_id :: string
  vector :: "real list"
  data :: 'd

text \<open>
  \<^verbatim>\<open>vectors.map(item => ({ id, similarity: cosineSimilarity(queryVector, item.vector), data }))\<close>:
  the first candidate whose score throws ends the map.
\<close>

fun score_all :: "real list \<Rightarrow> 'd candidate list \<Rightarrow> error + 'd scored list" where
  "score_all queryVector [] = Inr []"
| "score_all queryVector (item # items) =
     (case cosineSimilarity queryVector (vector item) of
        Inl e \<Rightarrow> Inl e
      | Inr s \<Rightarrow>
          (case score_all queryVector items of
             Inl e \<Rightarrow> Inl e
           | Inr rest \<Rightarrow>
               Inr (\<lparr>similarity = s, res_id = item_id item, res_data = data item\<rparr> # rest)))"

text \<open>
  \<^verbatim>\<open>similarities.sort((a, b) => b.similarity - a.similarity)\<close>:
  \<^verbatim>\<open>Array.prototype.sort\<close> is stable, and with a consistent comparator its result is
  the stable arrangement by descending similarity, which is the insertion sort on the
  negated score.
\<close>

definition sort_desc :: "((real, 'z) with_similarity_scheme) list \<Rightarrow> ((real, 'z) with_similarity_scheme) list" where
  "sort_desc rs = sort_key (\<lambda>r. - similarity r) rs"

text \<open>
  \<^verbatim>\<open>xs.slice(0, k)\<close> for an integral \<open>k\<close>: a negative end counts from the end of
  the array, and the end is clamped to the array. (A caller that leaves \<open>k\<close> out of
  \<^verbatim>\<open>findTopKSimilar\<close> gets \<open>k = 10\<close>, and one that leaves the threshold out of
  \<^verbatim>\<open>filterSimilarResults\<close> gets 0.95; the functions below take both explicitly.)
\<close>

definition slice0 :: "'a list \<Rightarrow> int \<Rightarrow> 'a list" where
  "slice0 xs k =
     (let len = int (length xs);
          final = (if k < 0 then max (len + k) 0 else min k len)
      in take (nat final) xs)"

definition findTopKSimilar :: "real list \<Rightarrow> 'd candidate list \<Rightarrow> int \<Rightarrow> error + 'd scored list" where
  "findTopKSimilar queryVector vectors k =
     (case score_all queryVector vectors of
        Inl e \<Rightarrow> Inl e
      | Inr similarities \<Rightarrow> Inr (slice0 (sort_desc similarities) k))"

text \<open>
  \<^verbatim>\<open>filterSimilarResults\<close> decides by one comparison of computed numbers,
  \<^verbatim>\<open>Math.abs(existing.similarity - result.similarity) < (1 - threshold)\<close>, and a
  rounded difference can fall on the other side of the bound than the exact one. So the
  function is modelled over any type \<open>'n\<close> of numbers with the operations it uses as they
  are in the runtime: the subtraction, \<^verbatim>\<open>Math.abs\<close>, \<^verbatim>\<open><\<close> and the number 1. For
  the IEEE doubles of JavaScript they are the rounding subtraction and the comparison that
  is false on NaN.
\<close>

record 'n number_ops =
  minus_op :: "'n \<Rightarrow> 'n \<Rightarrow> 'n"
  abs_op :: "'n \<Rightarrow> 'n"
  less_op :: "'n \<Rightarrow> 'n \<Rightarrow> bool"
  one_op :: 'n

text \<open>
  \<^verbatim>\<open>filterSimilarResults\<close>: the loop over \<open>results\<close> with the list \<open>filtered\<close> it
  pushes to.
\<close>

definition isDuplicate :: "'n number_ops \<Rightarrow> 'n \<Rightarrow> (('n, 'z) with_similarity_scheme) list \<Rightarrow> ('n, 'z) with_similarity_scheme \<Rightarrow> bool" where
  "isDuplicate ops threshold filtered r =
     list_ex
       (\<lambda>existing.
          less_op ops (abs_op ops (minus_op ops (similarity existing) (similarity r)))
            (minus_op ops (one_op ops) threshold))
       filtered"

fun filter_loop :: "'n number_ops \<Rightarrow> 'n \<Rightarrow> (('n, 'z) with_similarity_scheme) list \<Rightarrow> (('n, 'z) with_similarity_scheme) list \<Rightarrow> (('n, 'z) with_similarity_scheme) list" where
  "filter_loop ops threshold filtered [] = filtered"
| "filter_loop ops threshold filtered (r # results) =
     (if \<not> isDuplicate ops threshold filtered r
      then filter_loop ops threshold (filtered @ [r]) results
      else filter_loop ops threshold filtered results)"

definition filterSimilarResults :: "'n number_ops \<Rightarrow> (('n, 'z) with_similarity_scheme) list \<Rightarrow> 'n \<Rightarrow> (('n, 'z) with_similarity_scheme) list" where
  "filterSimilarResults ops results threshold = filter_loop ops threshold [] results"

text \<open>
  The norm that \<^verbatim>\<open>normalizeVector\<close> computes,
  \<^verbatim>\<open>Math.sqrt(vector.reduce((sum, val) => sum + val * val, 0))\<close>, and the function.
\<close>

definition vector_norm :: "real list \<Rightarrow> real" where
  "vector_norm v = sqrt (foldl (\<lambda>sum val. sum + val * val) 0 v)"

definition normalizeVector :: "real list \<Rightarrow> real list" where
  "normalizeVector v =
     (let norm = vector_norm v in
      if norm = 0 then v else map (\<lambda>val. val / norm) v)"

subsection \<open>Catalog rows\<close>

text \<open>
  A row of the \<^verbatim>\<open>products\<close> table, with the columns the search and the
  vectorization read. \<^verbatim>\<open>status\<close> is a TEXT column, so the row type holds any
  string; the enum of the Drizzle schema is the predicate \<open>status_in_schema_enum\<close>.
  \<^verbatim>\<open>vector_embedding\<close> is a nullable JSON array of numbers.
\<close>

record product =
  pid :: string
  name :: string
  description :: string
  category :: string
  brand :: string
  status :: string
  vectorEmbedding :: "real list option"

definition status_in_schema_enum :: "product \<Rightarrow> bool" where
  "status_in_schema_enum p = (status p \<in> {''in_stock'', ''out_of_stock'', ''pre_order''})"

subsection \<open>Strings\<close>

text \<open>
  The lower-case form of an ASCII letter: the letters \<^verbatim>\<open>A\<close> to \<^verbatim>\<open>Z\<close> have the
  codes 65 to 90, and the lower-case letter is the same code with bit 5 set (32 more).
\<close>

definition lower_ascii :: "char \<Rightarrow> char" where
  "lower_ascii c =
     (if 65 \<le> (of_char c :: nat) \<and> (of_char c :: nat) \<le> 90
      then (case c of Char b0 b1 b2 b3 b4 b5 b6 b7 \<Rightarrow> Char b0 b1 b2 b3 b4 True b6 b7)
      else c)"

definition toLowerCase :: "string \<Rightarrow> string" where
  "toLowerCase s = map lower_ascii s"

text \<open>\<^verbatim>\<open>hay.includes(needle)\<close>: the needle occurs at some position of the string.\<close>

fun includes_str :: "string \<Rightarrow> string \<Rightarrow> bool" where
  "includes_str [] needle = (needle = [])"
| "includes_str (c # cs) needle =
     (if prefix needle (c # cs) then True else includes_str cs needle)"

text \<open>
  A JavaScript truthiness test on an optional string (\<^verbatim>\<open>query.limit ? ... : ...\<close>,
  \<^verbatim>\<open>if (validated.category)\<close>): \<^verbatim>\<open>undefined\<close> and the empty string are falsy.
\<close>

definition truthy :: "string option \<Rightarrow> bool" where
  "truthy s = (case s of None \<Rightarrow> False | Some t \<Rightarrow> t \<noteq> [])"

text \<open>
  SQLite's \<^verbatim>\<open>text LIKE pattern\<close> without an escape character: \<^verbatim>\<open>%\<close> matches any
  run of characters, \<^verbatim>\<open>_\<close> any one character, and letters match without regard
  to ASCII case.
\<close>

fun like_match :: "string \<Rightarrow> string \<Rightarrow> bool" where
  "like_match [] [] = True"
| "like_match [] (c # cs) = False"
| "like_match (p # ps) [] = (if p = CHR ''%'' then like_match ps [] else False)"
| "like_match (p # ps) (c # cs) =
     (if p = CHR ''%'' then (if like_match ps (c # cs) then True else like_match (p # ps) cs)
      else if p = CHR ''_'' \<or> lower_ascii p = lower_ascii c then like_match ps cs
      else False)"

subsection \<open>The WHERE clauses that Drizzle builds\<close>

text \<open>
  A condition is the SQL text Drizzle emits, kept as tokens. \<^verbatim>\<open>eq(col, v)\<close> emits
  \<^verbatim>\<open>col = ?\<close>. \<^verbatim>\<open>and(c1, ..., cn)\<close> joins the texts of its arguments with
  \<^verbatim>\<open> and \<close> inside one pair of parentheses (a single argument stays as it is) and
  does not parenthesise an argument; a \<^verbatim>\<open>sql`...`\<close> template is spliced in as it
  is written. The outer parentheses enclose the whole WHERE clause in both queries of the
  route and are left out. SQLite then reads the text with AND binding tighter than OR,
  so \<^verbatim>\<open>a and b OR c\<close> is \<^verbatim>\<open>(a and b) OR c\<close>.
\<close>

datatype column = col_name | col_description | col_category | col_brand | col_status

datatype sql_atom = Eq column string | Like column string

datatype sql_tok = Atom sql_atom | And_tok | Or_tok

type_synonym sql = "sql_tok list"

definition eq_sql :: "column \<Rightarrow> string \<Rightarrow> sql" where
  "eq_sql c v = [Atom (Eq c v)]"

fun and_sql :: "sql list \<Rightarrow> sql" where
  "and_sql [] = []"
| "and_sql [c] = c"
| "and_sql (c # cs) = c @ [And_tok] @ and_sql cs"

text \<open>
  \<^verbatim>\<open>sql`${products.name} LIKE ${keywordQuery} OR ${products.description} LIKE ${keywordQuery}`\<close>
\<close>

definition name_or_description_like :: "string \<Rightarrow> sql" where
  "name_or_description_like keywordQuery =
     [Atom (Like col_name keywordQuery), Or_tok, Atom (Like col_description keywordQuery)]"

fun column_text :: "product \<Rightarrow> column \<Rightarrow> string" where
  "column_text p col_name = name p"
| "column_text p col_description = description p"
| "column_text p col_category = category p"
| "column_text p col_brand = brand p"
| "column_text p col_status = status p"

fun atom_holds :: "product \<Rightarrow> sql_atom \<Rightarrow> bool" where
  "atom_holds p (Eq c v) = (column_text p c = v)"
| "atom_holds p (Like c pat) = like_match pat (column_text p c)"

text \<open>
  The operands of the ORs of a parenthesis-free condition, each the list of the atoms
  its ANDs join.
\<close>

fun disjuncts :: "sql \<Rightarrow> sql_atom list list" where
  "disjuncts [] = [[]]"
| "disjuncts (Atom a # ts) =
     (case disjuncts ts of [] \<Rightarrow> [[a]] | g # gs \<Rightarrow> (a # g) # gs)"
| "disjuncts (And_tok # ts) = disjuncts ts"
| "disjuncts (Or_tok # ts) = [] # disjuncts ts"

definition where_holds :: "sql \<Rightarrow> product \<Rightarrow> bool" where
  "where_holds w p = list_ex (\<lambda>conj. list_all (atom_holds p) conj) (disjuncts w)"

subsection \<open>The request schema\<close>

text \<open>
  What \<^verbatim>\<open>parseInt\<close> and \<^verbatim>\<open>parseFloat\<close> return: NaN, an infinity or a finite number.
\<close>

datatype jsnum = JNaN | JInfinity | JNegInfinity | JNum real

text \<open>
  The functions the handler calls and this development does not interpret: the two
  number parsers of the JavaScript runtime and the \<^verbatim>\<open>sanitizePrompt\<close> transform of
  the schema. Every theorem below holds for whatever they compute.
\<close>

record runtime =
  parseInt :: "string \<Rightarrow> jsnum"
  parseFloat :: "string \<Rightarrow> jsnum"
  sanitizePrompt :: "string \<Rightarrow> string"

text \<open>The query parameters of the request, \<^verbatim>\<open>c.req.query()\<close>.\<close>

record raw_query =
  q_query :: "string option"
  q_limit :: "string option"
  q_minSimilarity :: "string option"
  q_category :: "string option"
  q_brand :: "string option"

text \<open>The object the handler passes to \<^verbatim>\<open>semanticSearchSchema.parse\<close>.\<close>

record schema_input =
  in_query :: string
  in_limit :: "jsnum option"
  in_minSimilarity :: "jsnum option"
  in_category :: "string option"
  in_brand :: "string option"

definition route_input :: "runtime \<Rightarrow> raw_query \<Rightarrow> schema_input" where
  "route_input rt q =
     \<lparr>in_query = (if truthy (q_query q) then the (q_query q) else []),
      in_limit = Some (if truthy (q_limit q) then parseInt rt (the (q_limit q)) else JNum 10),
      in_minSimilarity =
        Some (if truthy (q_minSimilarity q) then parseFloat rt (the (q_minSimilarity q))
              else JNum 0.5),
      in_category = q_category q,
      in_brand = q_brand q\<rparr>"

text \<open>
  The parsed request, \<^verbatim>\<open>SemanticSearchRequest\<close>. Its \<open>category\<close> and \<open>brand\<close>
  are the filters; the columns of a row are written \<open>product.category\<close> and
  \<open>product.brand\<close> from here on.
\<close>

record search_request =
  query :: string
  limit :: int
  minSimilarity :: real
  category :: "string option"
  brand :: "string option"

text \<open>
  The checks of the schema, each returning the issues it adds.
  \<^verbatim>\<open>z.string().min(1).max(500)\<close>; \<^verbatim>\<open>z.number().int().positive().max(50)\<close>;
  \<^verbatim>\<open>z.number().min(0).max(1)\<close>. \<^verbatim>\<open>z.number()\<close> refuses NaN and then runs every
  check on the number.
\<close>

definition check_query :: "string \<Rightarrow> (string \<times> issue_code) list" where
  "check_query s =
     (if length s < 1 then [(''query'', too_small)] else []) @
     (if length s > 500 then [(''query'', too_big)] else [])"

fun check_limit :: "jsnum \<Rightarrow> (string \<times> issue_code) list" where
  "check_limit JNaN = [(''limit'', invalid_type)]"
| "check_limit JInfinity = [(''limit'', invalid_type), (''limit'', too_big)]"
| "check_limit JNegInfinity = [(''limit'', invalid_type), (''limit'', too_small)]"
| "check_limit (JNum v) =
     (if v \<noteq> of_int \<lfloor>v\<rfloor> then [(''limit'', invalid_type)] else []) @
     (if v \<le> 0 then [(''limit'', too_small)] else []) @
     (if v > 50 then [(''limit'', too_big)] else [])"

fun check_minSimilarity :: "jsnum \<Rightarrow> (string \<times> issue_code) list" where
  "check_minSimilarity JNaN = [(''minSimilarity'', invalid_type)]"
| "check_minSimilarity JInfinity = [(''minSimilarity'', too_big)]"
| "check_minSimilarity JNegInfinity = [(''minSimilarity'', too_small)]"
| "check_minSimilarity (JNum v) =
     (if v < 0 then [(''minSimilarity'', too_small)] else []) @
     (if v > 1 then [(''minSimilarity'', too_big)] else [])"

text \<open>
  \<^verbatim>\<open>semanticSearchSchema.parse\<close>: the defaults of \<^verbatim>\<open>limit\<close> and
  \<^verbatim>\<open>minSimilarity\<close> stand in for an absent field, the issues of all fields are
  collected, and the query is transformed after its checks.
\<close>

definition schema_issues :: "schema_input \<Rightarrow> (string \<times> issue_code) list" where
  "schema_issues i =
     check_query (in_query i) @
     check_limit (case in_limit i of None \<Rightarrow> JNum 10 | Some n \<Rightarrow> n) @
     check_minSimilarity (case in_minSimilarity i of None \<Rightarrow> JNum 0.5 | Some n \<Rightarrow> n)"

definition semanticSearchSchema_parse :: "runtime \<Rightarrow> schema_input \<Rightarrow> error + search_request" where
  "semanticSearchSchema_parse rt i =
     (let lmt = (case in_limit i of None \<Rightarrow> JNum 10 | Some n \<Rightarrow> n);
          ms = (case in_minSimilarity i of None \<Rightarrow> JNum 0.5 | Some n \<Rightarrow> n);
          issues = schema_issues i
      in case (lmt, ms) of
           (JNum l, JNum m) \<Rightarrow>
             if issues = [] then
               Inr \<lparr>query = sanitizePrompt rt (in_query i), limit = \<lfloor>l\<rfloor>, minSimilarity = m,
                    category = in_category i, brand = in_brand i\<rparr>
             else Inl (ZodError issues)
         | _ \<Rightarrow> Inl (ZodError issues))"

subsection \<open>The search route\<close>

text \<open>
  The world outside the handler: the embedding provider (\<open>Inl\<close> is the reason of a
  rejected \<^verbatim>\<open>embedContent\<close>) and the D1 table (\<open>Inl\<close> is the reason of a rejected
  statement; the rows are returned in the order of the list).
\<close>

record env =
  embedContent :: "string \<Rightarrow> string + real list"
  d1_products :: "string + product list"

definition generateEmbedding :: "env \<Rightarrow> string \<Rightarrow> error + real list" where
  "generateEmbedding e txt =
     (case embedContent e txt of Inl reason \<Rightarrow> Inl (ProviderError reason) | Inr values \<Rightarrow> Inr values)"

text \<open>\<^verbatim>\<open>db.select().from(products).where(w).all()\<close>, and the same with \<^verbatim>\<open>.limit(n)\<close>.\<close>

definition select_where :: "env \<Rightarrow> sql \<Rightarrow> error + product list" where
  "select_where e w =
     (case d1_products e of
        Inl reason \<Rightarrow> Inl (CatalogStoreError reason)
      | Inr rows \<Rightarrow> Inr (filter (where_holds w) rows))"

definition select_where_limit :: "env \<Rightarrow> sql \<Rightarrow> int \<Rightarrow> error + product list" where
  "select_where_limit e w n =
     (case select_where e w of Inl err \<Rightarrow> Inl err | Inr rows \<Rightarrow> Inr (take (nat n) rows))"

text \<open>What the handler causes outside itself, in order.\<close>

datatype effect =
    EmbedRequest string
  | SelectProducts sql "int option"
  | InsertLog string string "string list"

text \<open>
  An entry of \<^verbatim>\<open>data.products\<close>: the row, and the \<^verbatim>\<open>similarity\<close> the hybrid path
  adds to it (the rows of the fallback query carry none).
\<close>

record result_row =
  row :: product
  row_similarity :: "real option"

record search_data =
  products :: "result_row list"
  total :: nat
  method_tag :: string

record outcome =
  effects :: "effect list"
  response :: "error + search_data"

definition conditions :: "search_request \<Rightarrow> sql list" where
  "conditions validated =
     [eq_sql col_status ''active''] @
     (if truthy (category validated) then [eq_sql col_category (the (category validated))] else []) @
     (if truthy (brand validated) then [eq_sql col_brand (the (brand validated))] else [])"

definition productsWithVectors :: "product list \<Rightarrow> product candidate list" where
  "productsWithVectors allProducts =
     map (\<lambda>p. \<lparr>item_id = pid p, vector = the (vectorEmbedding p), data = p\<rparr>)
       (filter (\<lambda>p. vectorEmbedding p \<noteq> None) allProducts)"

definition keyword_hit :: "string \<Rightarrow> product \<Rightarrow> bool" where
  "keyword_hit q p =
     (includes_str (toLowerCase (name p)) (toLowerCase q) \<or>
      includes_str (toLowerCase (description p)) (toLowerCase q) \<or>
      includes_str (toLowerCase (product.category p)) (toLowerCase q) \<or>
      includes_str (toLowerCase (product.brand p)) (toLowerCase q))"

definition keywordResults :: "search_request \<Rightarrow> product list \<Rightarrow> product list" where
  "keywordResults validated allProducts =
     filter (keyword_hit (query validated))
       (filter (\<lambda>p. vectorEmbedding p = None) allProducts)"

text \<open>Step 5 of the handler: the merge.\<close>

definition combinedResults :: "int \<Rightarrow> product scored list \<Rightarrow> product list \<Rightarrow> result_row list" where
  "combinedResults lmt vectorResults kwResults =
     (let vectorProductIds = set (map res_id vectorResults) in
      slice0
        (map (\<lambda>r. \<lparr>row = res_data r, row_similarity = Some (similarity r)\<rparr>) vectorResults @
         map (\<lambda>p. \<lparr>row = p, row_similarity = Some 0.3\<rparr>)
           (filter (\<lambda>p. pid p \<notin> vectorProductIds) kwResults))
        lmt)"

text \<open>
  The \<^verbatim>\<open>try\<close> block. \<open>auth\<close> is the user id that \<^verbatim>\<open>optionalAuth\<close> found, if any; the
  log insert is not awaited and its rejection is caught, so it leaves only its effect.
\<close>

definition search_try :: "env \<Rightarrow> string option \<Rightarrow> search_request \<Rightarrow> effect list \<times> (error + search_data)" where
  "search_try e auth validated =
     (case generateEmbedding e (query validated) of
        Inl err \<Rightarrow> ([EmbedRequest (query validated)], Inl err)
      | Inr queryVector \<Rightarrow>
          (let w = and_sql (conditions validated);
               fx = [EmbedRequest (query validated), SelectProducts w None]
           in case select_where e w of
                Inl err \<Rightarrow> (fx, Inl err)
              | Inr allProducts \<Rightarrow>
                  (case findTopKSimilar queryVector (productsWithVectors allProducts)
                          (limit validated * 2) of
                     Inl err \<Rightarrow> (fx, Inl err)
                   | Inr ranked \<Rightarrow>
                       (let vectorResults =
                              filter (\<lambda>r. similarity r \<ge> minSimilarity validated) ranked;
                            combined =
                              combinedResults (limit validated) vectorResults
                                (keywordResults validated allProducts)
                        in (fx @
                            (case auth of
                               None \<Rightarrow> []
                             | Some userId \<Rightarrow>
                                 [InsertLog userId (query validated) (map (pid \<circ> row) combined)]),
                            Inr \<lparr>products = combined, total = length combined,
                                 method_tag =
                                   (if length vectorResults > 0 then ''hybrid'' else ''keyword'')\<rparr>)))))"

text \<open>The \<^verbatim>\<open>catch\<close> block: the fallback query.\<close>

definition search_fallback :: "env \<Rightarrow> search_request \<Rightarrow> effect list \<times> (error + search_data)" where
  "search_fallback e validated =
     (let keywordQuery = ''%'' @ query validated @ ''%'';
          w = and_sql (conditions validated @ [name_or_description_like keywordQuery])
      in ([SelectProducts w (Some (limit validated))],
          case select_where_limit e w (limit validated) of
            Inl err \<Rightarrow> Inl err
          | Inr fallbackResults \<Rightarrow>
              Inr \<lparr>products = map (\<lambda>p. \<lparr>row = p, row_similarity = None\<rparr>) fallbackResults,
                   total = length fallbackResults,
                   method_tag = ''keyword-fallback''\<rparr>))"

text \<open>\<^verbatim>\<open>GET /api/search\<close>: the handler, after the rate limiter and \<^verbatim>\<open>optionalAuth\<close>.\<close>

definition search_handler :: "runtime \<Rightarrow> env \<Rightarrow> string option \<Rightarrow> raw_query \<Rightarrow> outcome" where
  "search_handler rt e auth q =
     (case semanticSearchSchema_parse rt (route_input rt q) of
        Inl err \<Rightarrow> \<lparr>effects = [], response = Inl err\<rparr>
      | Inr validated \<Rightarrow>
          (case search_try e auth validated of
             (fx, Inr d) \<Rightarrow> \<lparr>effects = fx, response = Inr d\<rparr>
           | (fx, Inl err) \<Rightarrow>
               (case search_fallback e validated of
                  (fx2, r) \<Rightarrow> \<lparr>effects = fx @ fx2, response = r\<rparr>)))"

subsection \<open>The batch vectorization script\<close>

text \<open>
  \<^verbatim>\<open>combineProductFields\<close>:
  \<^verbatim>\<open>[name, brand, category, description || ''].filter(Boolean).join(' ')\<close>.
\<close>

fun join_space :: "string list \<Rightarrow> string" where
  "join_space [] = []"
| "join_space [part] = part"
| "join_space (part # parts) = part @ '' '' @ join_space parts"

definition combineProductFields :: "product \<Rightarrow> string" where
  "combineProductFields p =
     join_space
       (filter (\<lambda>part. part \<noteq> [])
          [name p, product.brand p, product.category p, description p])"

text \<open>
  \<^verbatim>\<open>Promise.all\<close> over the answers of the provider: the vectors in the order of the
  texts when every request is fulfilled, a rejection when one is rejected (the model
  reports the first rejected request of the list; which one JavaScript reports depends
  on timing, and the script only prints it).
\<close>

fun promise_all :: "(string + real list) list \<Rightarrow> error + real list list" where
  "promise_all [] = Inr []"
| "promise_all (r # rs) =
     (case r of
        Inl reason \<Rightarrow> Inl (ProviderError reason)
      | Inr v \<Rightarrow> (case promise_all rs of Inl e \<Rightarrow> Inl e | Inr vs \<Rightarrow> Inr (v # vs)))"

definition generateBatchEmbeddings :: "(string \<Rightarrow> string + real list) \<Rightarrow> string list \<Rightarrow> error + real list list" where
  "generateBatchEmbeddings provider texts = promise_all (map provider texts)"

text \<open>
  The state of a run: the \<^verbatim>\<open>products\<close> table, the counter \<^verbatim>\<open>processedCount\<close> and
  the errors the \<^verbatim>\<open>catch\<close> of the batch loop printed.
\<close>

record run_state =
  table :: "product list"
  processedCount :: nat
  batch_errors :: "error list"

text \<open>\<^verbatim>\<open>db.update(products).set({ vectorEmbedding: embedding }).where(eq(products.id, id))\<close>\<close>

definition update_embedding :: "string \<Rightarrow> real list \<Rightarrow> product list \<Rightarrow> product list" where
  "update_embedding i embedding rows =
     map (\<lambda>r. if pid r = i then r\<lparr>vectorEmbedding := Some embedding\<rparr> else r) rows"

text \<open>
  The inner loop over the products of a batch and their embeddings. \<open>rejected\<close> tells
  for a product id whether its UPDATE statement is rejected, and with what reason; a
  rejection leaves the loop for the \<^verbatim>\<open>catch\<close> of the batch.
\<close>

fun persist_batch :: "(string \<Rightarrow> string option) \<Rightarrow> product list \<Rightarrow> real list list \<Rightarrow> run_state \<Rightarrow> run_state" where
  "persist_batch rejected (p # ps) (embedding # embeddings) st =
     (case rejected (pid p) of
        Some reason \<Rightarrow> st\<lparr>batch_errors := batch_errors st @ [CatalogStoreError reason]\<rparr>
      | None \<Rightarrow>
          persist_batch rejected ps embeddings
            (st\<lparr>table := update_embedding (pid p) embedding (table st),
                 processedCount := processedCount st + 1\<rparr>))"
| "persist_batch rejected _ _ st = st"

text \<open>The body of the batch loop: the \<^verbatim>\<open>try\<close> and its \<^verbatim>\<open>catch\<close>.\<close>

definition process_batch :: "(string \<Rightarrow> string + real list) \<Rightarrow> (string \<Rightarrow> string option) \<Rightarrow> string list \<Rightarrow> product list \<Rightarrow> run_state \<Rightarrow> run_state" where
  "process_batch provider rejected batch batchProducts st =
     (case generateBatchEmbeddings provider batch of
        Inl e \<Rightarrow> st\<lparr>batch_errors := batch_errors st @ [e]\<rparr>
      | Inr embeddings \<Rightarrow> persist_batch rejected batchProducts embeddings st)"

definition batchSize :: nat where
  "batchSize = 10"

text \<open>\<^verbatim>\<open>xs.slice(i, j)\<close> for indices within \<open>0 .. j\<close>.\<close>

definition slice :: "'a list \<Rightarrow> nat \<Rightarrow> nat \<Rightarrow> 'a list" where
  "slice xs i j = take (j - i) (drop i xs)"

text \<open>\<^verbatim>\<open>for (let i = 0; i < productTexts.length; i += batchSize)\<close>\<close>

function vectorize_loop :: "(string \<Rightarrow> string + real list) \<Rightarrow> (string \<Rightarrow> string option) \<Rightarrow> string list \<Rightarrow> product list \<Rightarrow> nat \<Rightarrow> run_state \<Rightarrow> run_state" where
  "vectorize_loop provider rejected productTexts productsToVectorize i st =
     (if i < length productTexts then
        vectorize_loop provider rejected productTexts productsToVectorize (i + batchSize)
          (process_batch provider rejected
             (slice productTexts i (i + batchSize))
             (slice productsToVectorize i (i + batchSize)) st)
      else st)"
  by pat_completeness auto
termination
  by (relation "measure (\<lambda>(provider, rejected, productTexts, productsToVectorize, i, st).
                  length productTexts - i)")
     (auto simp: batchSize_def)

declare vectorize_loop.simps [simp del]

text \<open>
  \<^verbatim>\<open>vectorizeProducts\<close>, from the rows of the table on (a rejected first SELECT ends
  the script before any batch). The script prints
  \<^verbatim>\<open>processedCount/productsToVectorize.length\<close> at its end.
\<close>

definition productsToVectorize :: "product list \<Rightarrow> product list" where
  "productsToVectorize rows = filter (\<lambda>p. vectorEmbedding p = None) rows"

definition vectorizeProducts :: "(string \<Rightarrow> string + real list) \<Rightarrow> (string \<Rightarrow> string option) \<Rightarrow> product list \<Rightarrow> run_state" where
  "vectorizeProducts provider rejected rows =
     (let todo = productsToVectorize rows;
          st0 = \<lparr>table = rows, processedCount = 0, batch_errors = []\<rparr>
      in if length todo = 0 then st0
         else vectorize_loop provider rejected (map combineProductFields todo) todo 0 st0)"

subsection \<open>Concrete inputs\<close>

text \<open>Candidates and scored entries without a payload, for the examples.\<close>

definition cand :: "string \<Rightarrow> real list \<Rightarrow> unit candidate" where
  "cand i v = \<lparr>item_id = i, vector = v, data = ()\<rparr>"

definition hit :: "string \<Rightarrow> real \<Rightarrow> unit scored" where
  "hit i s = \<lparr>similarity = s, res_id = i, res_data = ()\<rparr>"

text \<open>
  The exact subtraction, absolute value and order of the reals. An IEEE subtraction
  returns the exact difference whenever that difference is a double, so on doubles whose
  differences are doubles these are the operations of the runtime. \<open>d090\<close> and \<open>d095\<close>
  are the doubles that the literals \<^verbatim>\<open>0.9\<close> and \<^verbatim>\<open>0.95\<close> denote; their difference
  and \<open>1 - d095\<close> are doubles.
\<close>

definition exact_ops :: "real number_ops" where
  "exact_ops = \<lparr>minus_op = (\<lambda>a b. a - b), abs_op = abs, less_op = (\<lambda>a b. a < b), one_op = 1\<rparr>"

definition d090 :: real where
  "d090 = 8106479329266893 / 2 ^ 53"

definition d095 :: real where
  "d095 = 4278419646001971 / 2 ^ 52"

text \<open>
  A runtime whose parsers read the parameter strings the examples use as JavaScript
  reads them, and whose sanitizer leaves the example queries as they are.
\<close>

definition demo_rt :: runtime where
  "demo_rt =
     \<lparr>parseInt =
        (\<lambda>s. if s = ''0'' then JNum 0 else if s = ''51'' then JNum 51
             else if s = ''5'' then JNum 5 else JNaN),
      parseFloat =
        (\<lambda>s. if s = ''1.5'' then JNum 1.5 else if s = ''0'' then JNum 0 else JNaN),
      sanitizePrompt = (\<lambda>s. s)\<rparr>"

definition demo_query :: "string \<Rightarrow> raw_query" where
  "demo_query s =
     \<lparr>q_query = Some s, q_limit = None, q_minSimilarity = None, q_category = None,
      q_brand = None\<rparr>"

definition item :: "string \<Rightarrow> string \<Rightarrow> string \<Rightarrow> real list option \<Rightarrow> product" where
  "item i n st emb =
     \<lparr>pid = i, name = n, description = ''In stock now'', category = ''audio'', brand = ''Acme'',
      status = st, vectorEmbedding = emb\<rparr>"

definition headphones :: product where
  "headphones =
     \<lparr>pid = ''p1'', name = ''Premium Wireless Headphones'',
      description = ''Over-ear headphones with noise cancelling'',
      category = ''audio'', brand = ''Acme'', status = ''in_stock'', vectorEmbedding = None\<rparr>"

definition provider_down :: "string \<Rightarrow> string + real list" where
  "provider_down txt = Inl ''quota exceeded''"

definition provider_2d :: "string \<Rightarrow> string + real list" where
  "provider_2d txt = Inr [1, 0]"

text \<open>The twelve rows of the partial-failure scenario, and a provider that fails on item 7.\<close>

definition sku :: "string \<Rightarrow> product" where
  "sku i =
     \<lparr>pid = i, name = i, description = ''d'', category = ''c'', brand = ''b'',
      status = ''in_stock'', vectorEmbedding = None\<rparr>"

definition catalog12 :: "product list" where
  "catalog12 =
     map sku [''01'', ''02'', ''03'', ''04'', ''05'', ''06'', ''07'', ''08'', ''09'', ''10'',
              ''11'', ''12'']"

definition provider_item7_fails :: "string \<Rightarrow> string + real list" where
  "provider_item7_fails txt =
     (if txt = ''07 b c d'' then Inl ''provider error'' else Inr [1, 0])"

definition never_rejected :: "string \<Rightarrow> string option" where
  "never_rejected i = None"

subsection \<open>Properties of the vector mathematics\<close>

lemma cosine_sums_swap:
  "cosine_sums a b (d, na, nb) = (d', na', nb') \<Longrightarrow> cosine_sums b a (d, nb, na) = (d', nb', na')"
proof (induction a arbitrary: b d na nb)
  case Nil
  then show ?case by simp
next
  case (Cons x xs)
  then show ?case by (cases b) (simp_all add: mult.commute)
qed

lemma foldl_squares: "foldl (\<lambda>sum val. sum + val * val) s v = s + (\<Sum>x\<leftarrow>v. x * x)"
  by (induction v arbitrary: s) (auto simp: add.assoc)

lemma cosine_sums_closed_form:
  "length a = length b \<Longrightarrow>
   cosine_sums a b (d, na, nb) =
     (d + (\<Sum>(x, y)\<leftarrow>zip a b. x * y), na + (\<Sum>x\<leftarrow>a. x * x), nb + (\<Sum>y\<leftarrow>b. y * y))"
  by (induction a b arbitrary: d na nb rule: list_induct2) (auto simp: add.assoc)

lemma cosine_zero_norm:
  assumes "length a = length b" "vector_norm a = 0 \<or> vector_norm b = 0"
  shows "cosineSimilarity a b = Inr 0"
  using assms
  by (auto simp: cosineSimilarity_def cosine_sums_closed_form vector_norm_def foldl_squares)

lemma cosine_commutes:
  assumes "length a = length b"
  shows "cosineSimilarity a b = cosineSimilarity b a"
proof -
  obtain d na nb where s: "cosine_sums a b (0, 0, 0) = (d, na, nb)"
    by (cases "cosine_sums a b (0, 0, 0)") auto
  from cosine_sums_swap[OF s] have s': "cosine_sums b a (0, 0, 0) = (d, nb, na)" .
  show ?thesis using assms s s' by (auto simp: cosineSimilarity_def Let_def mult.commute)
qed

lemma cosine_defined:
  assumes "length a = length b"
  shows "\<exists>x. cosineSimilarity a b = Inr x"
proof -
  obtain d na nb where "cosine_sums a b (0, 0, 0) = (d, na, nb)"
    by (cases "cosine_sums a b (0, 0, 0)") auto
  with assms show ?thesis by (simp add: cosineSimilarity_def Let_def)
qed

lemma cosine_mismatch:
  "length a \<noteq> length b \<Longrightarrow> cosineSimilarity a b = Inl VectorLengthError"
  by (simp add: cosineSimilarity_def)

text \<open>
  C7. For vectors \<open>a\<close> and \<open>b\<close> of equal length, \<open>cosineSimilarity a b\<close> and
  \<open>cosineSimilarity b a\<close> are the same result, and when the Euclidean norm of either
  (the square root of the sum of the squares of its components) is zero, the result is
  the number 0 and not an error.
\<close>

theorem cosineSimilarity_symmetric_and_zero:
  assumes "length a = length b"
  shows "cosineSimilarity a b = cosineSimilarity b a \<and>
         (vector_norm a = 0 \<or> vector_norm b = 0 \<longrightarrow> cosineSimilarity a b = Inr 0)"
  using cosine_commutes[OF assms] cosine_zero_norm[OF assms] by blast

theorem cosineSimilarity_symmetric_and_zero_witness:
  "length [0, 0 :: real] = length [3, 4 :: real] \<and>
   vector_norm [0, 0] = 0 \<and>
   cosineSimilarity [0, 0] [3, 4] = cosineSimilarity [3, 4] [0, 0] \<and>
   cosineSimilarity [0, 0] [3, 4] = Inr 0 \<and>
   cosineSimilarity [3, 4] [4, 3] = cosineSimilarity [4, 3] [3, 4] \<and>
   cosineSimilarity [3, 4] [4, 3] = Inr (24 / 25)"
  using cosineSimilarity_symmetric_and_zero[of "[0, 0]" "[3, 4]"]
        cosineSimilarity_symmetric_and_zero[of "[3, 4]" "[4, 3]"]
  by (simp add: vector_norm_def cosineSimilarity_def)

subsection \<open>Properties of the ranking\<close>

lemma score_all_ok:
  "\<forall>c\<in>set cs. length (vector c) = length q \<Longrightarrow>
   \<exists>sims. score_all q cs = Inr sims \<and> length sims = length cs \<and>
     map (\<lambda>r. (res_id r, res_data r)) sims = map (\<lambda>c. (item_id c, data c)) cs"
proof (induction cs)
  case Nil
  then show ?case by simp
next
  case (Cons c cs)
  then obtain sims where s: "score_all q cs = Inr sims" "length sims = length cs"
     "map (\<lambda>r. (res_id r, res_data r)) sims = map (\<lambda>c. (item_id c, data c)) cs" by auto
  from Cons.prems have "length q = length (vector c)" by simp
  then obtain x where "cosineSimilarity q (vector c) = Inr x"
    using cosine_defined by metis
  with s show ?case by simp
qed

lemma score_all_mismatch:
  "\<exists>c\<in>set cs. length (vector c) \<noteq> length q \<Longrightarrow> score_all q cs = Inl VectorLengthError"
proof (induction cs)
  case Nil
  then show ?case by simp
next
  case (Cons c cs)
  show ?case
  proof (cases "length (vector c) = length q")
    case True
    then obtain x where "cosineSimilarity q (vector c) = Inr x"
      using cosine_defined by metis
    moreover from True Cons have "score_all q cs = Inl VectorLengthError" by auto
    ultimately show ?thesis by simp
  next
    case False
    then have "cosineSimilarity q (vector c) = Inl VectorLengthError"
      by (auto simp: cosineSimilarity_def)
    then show ?thesis by simp
  qed
qed

lemma findTopKSimilar_defined:
  assumes "\<forall>c\<in>set vectors. length (vector c) = length queryVector"
  shows "\<exists>ranked. findTopKSimilar queryVector vectors k = Inr ranked"
proof -
  from score_all_ok[OF assms] obtain sims where "score_all queryVector vectors = Inr sims"
    by blast
  then show ?thesis by (simp add: findTopKSimilar_def)
qed




lemma slice0_all: "int (length xs) \<le> k \<Longrightarrow> slice0 xs k = xs"
  by (auto simp: slice0_def Let_def)


lemma slice0_length:
  "length (slice0 xs k) = (if k < 0 then nat (int (length xs) + k) else min (nat k) (length xs))"
  by (auto simp: slice0_def Let_def)







text \<open>
  C5, as the code has it. For \<open>k \<le> 0\<close> and candidates that all have the length of the
  query vector, \<open>findTopKSimilar\<close> returns the empty list when \<open>k = 0\<close>, and for a
  negative \<open>k\<close> the ranking of all candidates without its last \<open>-k\<close> entries (the end
  index of \<^verbatim>\<open>slice\<close> counts from the end), which is empty exactly when \<open>-k\<close> is at
  least the number of candidates. When a candidate has another length, the length error
  is raised whatever \<open>k\<close> is.
\<close>

theorem findTopKSimilar_nonpositive_k:
  assumes "k \<le> 0"
  shows "if \<forall>c\<in>set vectors. length (vector c) = length queryVector
         then \<exists>ranking. findTopKSimilar queryVector vectors (int (length vectors)) = Inr ranking \<and>
                length ranking = length vectors \<and>
                findTopKSimilar queryVector vectors k =
                  Inr (if k = 0 then [] else take (nat (int (length vectors) + k)) ranking) \<and>
                (findTopKSimilar queryVector vectors k = Inr [] \<longleftrightarrow>
                   k = 0 \<or> int (length vectors) \<le> - k)
         else findTopKSimilar queryVector vectors k = Inl VectorLengthError"
proof (cases "\<forall>c\<in>set vectors. length (vector c) = length queryVector")
  case True
  from score_all_ok[OF True] obtain sims where
    s: "score_all queryVector vectors = Inr sims" "length sims = length vectors"
    by blast
  let ?ranking = "sort_desc sims"
  have len: "length ?ranking = length vectors"
    using s by (simp add: sort_desc_def)
  have full: "findTopKSimilar queryVector vectors (int (length vectors)) = Inr ?ranking"
    using s len by (simp add: findTopKSimilar_def slice0_all)
  have r: "findTopKSimilar queryVector vectors k =
             Inr (if k = 0 then [] else take (nat (int (length vectors) + k)) ?ranking)"
  proof -
    have "nat (max (int (length vectors) + k) 0) = nat (int (length vectors) + k)"
      by (simp add: max_def)
    then show ?thesis
      using s len assms by (simp add: findTopKSimilar_def slice0_def Let_def)
  qed
  have e: "findTopKSimilar queryVector vectors k = Inr [] \<longleftrightarrow>
             k = 0 \<or> int (length vectors) \<le> - k"
    unfolding r using len assms by (auto simp: take_eq_Nil)
  from True full len r e show ?thesis by auto
next
  case False
  then have "score_all queryVector vectors = Inl VectorLengthError"
    by (intro score_all_mismatch) blast
  with False show ?thesis by (simp add: findTopKSimilar_def)
qed

theorem findTopKSimilar_nonpositive_k_witness:
  "(-2 :: int) \<le> 0 \<and>
   findTopKSimilar [1, 0] [cand ''a'' [0, 1], cand ''b'' [1, 0], cand ''c'' [0, 2]] (-2) =
     Inr [hit ''b'' 1] \<and>
   findTopKSimilar [1, 0] [cand ''a'' [0, 1], cand ''b'' [1, 0], cand ''c'' [0, 2]] (-3) = Inr [] \<and>
   findTopKSimilar [1, 0] [cand ''a'' [0, 1], cand ''b'' [1, 0, 0]] 0 = Inl VectorLengthError"
  using findTopKSimilar_nonpositive_k
          [of "-2" "[cand ''a'' [0, 1], cand ''b'' [1, 0], cand ''c'' [0, 2]]" "[1, 0]"]
  by (simp add: findTopKSimilar_def cosineSimilarity_def cand_def hit_def sort_desc_def slice0_def)

text \<open>
  The claim as stated fails at \<open>k = -1\<close>: of three candidates the two best are
  returned.
\<close>

theorem findTopKSimilar_negative_k_counterexample:
  "findTopKSimilar [1, 0] [cand ''a'' [0, 1], cand ''b'' [1, 0], cand ''c'' [0, 2]] (-1) =
     Inr [hit ''b'' 1, hit ''a'' 0] \<and>
   findTopKSimilar [1, 0] [cand ''a'' [0, 1], cand ''b'' [1, 0], cand ''c'' [0, 2]] (-1) \<noteq> Inr []"
  by (simp add: findTopKSimilar_def cosineSimilarity_def cand_def hit_def sort_desc_def slice0_def)

subsection \<open>Properties of the near-duplicate filter\<close>

lemma filter_loop_snoc:
  "filter_loop ops t acc (rs @ [r]) =
     (if isDuplicate ops t (filter_loop ops t acc rs) r then filter_loop ops t acc rs
      else filter_loop ops t acc rs @ [r])"
  by (induction rs arbitrary: acc) auto

lemma isDuplicate_scores:
  assumes "map similarity fs = map similarity gs" and "similarity r = similarity q"
  shows "isDuplicate ops t fs r = isDuplicate ops t gs q"
proof -
  let ?near = "\<lambda>s x. less_op ops (abs_op ops (minus_op ops s x)) (minus_op ops (one_op ops) t)"
  have "isDuplicate ops t fs r = (\<exists>s\<in>set (map similarity fs). ?near s (similarity r))"
    by (auto simp: isDuplicate_def list_ex_iff)
  also have "\<dots> = (\<exists>s\<in>set (map similarity gs). ?near s (similarity q))"
    using assms by simp
  also have "\<dots> = isDuplicate ops t gs q"
    by (auto simp: isDuplicate_def list_ex_iff)
  finally show ?thesis .
qed

lemma filter_loop_scores:
  "map similarity acc = map similarity acc' \<Longrightarrow> map similarity rs = map similarity rs' \<Longrightarrow>
   map similarity (filter_loop ops t acc rs) = map similarity (filter_loop ops t acc' rs')"
proof (induction rs arbitrary: acc acc' rs')
  case Nil
  then show ?case by simp
next
  case (Cons r rs)
  then obtain r' rs'' where rs': "rs' = r' # rs''" "similarity r = similarity r'"
     "map similarity rs = map similarity rs''" by (cases rs') auto
  have d: "isDuplicate ops t acc r = isDuplicate ops t acc' r'"
    using isDuplicate_scores[OF Cons.prems(1) rs'(2)] .
  show ?case
  proof (cases "isDuplicate ops t acc r")
    case True
    with d rs' Cons show ?thesis by simp
  next
    case False
    have "map similarity (acc @ [r]) = map similarity (acc' @ [r'])"
      using Cons.prems(1) rs'(2) by simp
    from Cons.IH[OF this rs'(3)] False d rs' show ?thesis by simp
  qed
qed

text \<open>
  C8. \<open>filterSimilarResults\<close> goes through the results in input order and keeps a
  result exactly when no result kept before it has a score strictly within
  \<open>1 - threshold\<close> of its score, the difference, its absolute value, the bound and the
  comparison being those the runtime computes; and which positions are kept depends on
  the scores alone (the same list stripped to its scores keeps the same scores).
\<close>

theorem filterSimilarResults_greedy:
  "filterSimilarResults ops [] t = [] \<and>
   filterSimilarResults ops (rs @ [r]) t =
     (if \<exists>kept\<in>set (filterSimilarResults ops rs t).
           less_op ops (abs_op ops (minus_op ops (similarity kept) (similarity r)))
             (minus_op ops (one_op ops) t)
      then filterSimilarResults ops rs t
      else filterSimilarResults ops rs t @ [r]) \<and>
   map similarity (filterSimilarResults ops rs t) =
     map similarity (filterSimilarResults ops (map (\<lambda>x. \<lparr>similarity = similarity x\<rparr>) rs) t)"
proof -
  have "map similarity rs = map similarity (map (\<lambda>x. \<lparr>similarity = similarity x\<rparr>) rs)"
    by (simp add: comp_def)
  then have "map similarity (filter_loop ops t [] rs) =
     map similarity (filter_loop ops t [] (map (\<lambda>x. \<lparr>similarity = similarity x\<rparr>) rs))"
    by (intro filter_loop_scores) simp_all
  then show ?thesis
    by (simp add: filterSimilarResults_def filter_loop_snoc isDuplicate_def list_ex_iff)
qed

theorem filterSimilarResults_greedy_witness:
  "filterSimilarResults exact_ops
      ([hit ''a'' 0.5, hit ''b'' 0.625, hit ''c'' 0.25] @ [hit ''d'' 1]) 0.75 =
     [hit ''a'' 0.5, hit ''c'' 0.25, hit ''d'' 1] \<and>
   filterSimilarResults exact_ops ([hit ''a'' 0.5] @ [hit ''b'' 0.625]) 0.75 = [hit ''a'' 0.5] \<and>
   filterSimilarResults exact_ops ([hit ''a'' 0.5] @ [hit ''c'' 0.25]) 0.75 =
     [hit ''a'' 0.5, hit ''c'' 0.25] \<and>
   filterSimilarResults exact_ops ([hit ''a'' d090] @ [hit ''b'' d095]) d095 = [hit ''a'' d090]"
  using filterSimilarResults_greedy
          [of exact_ops "0.75" "[hit ''a'' 0.5, hit ''b'' 0.625, hit ''c'' 0.25]" "hit ''d'' 1"]
  by (simp add: filterSimilarResults_def isDuplicate_def hit_def exact_ops_def d090_def d095_def)

subsection \<open>Properties of the request schema\<close>

lemma lower_ascii_letters:
  "map lower_ascii ''ABCDEFGHIJKLMNOPQRSTUVWXYZ'' = ''abcdefghijklmnopqrstuvwxyz''"
  by (simp add: lower_ascii_def)

lemmas handler_defs =
  search_handler_def semanticSearchSchema_parse_def schema_issues_def route_input_def
  truthy_def check_query_def search_try_def generateEmbedding_def search_fallback_def
  select_where_limit_def select_where_def where_holds_def conditions_def eq_sql_def
  name_or_description_like_def productsWithVectors_def keywordResults_def keyword_hit_def
  combinedResults_def findTopKSimilar_def cosineSimilarity_def sort_desc_def slice0_def
  toLowerCase_def lower_ascii_def Let_def

lemma check_limit_not_num: "\<forall>v. n \<noteq> JNum v \<Longrightarrow> check_limit n \<noteq> []"
  by (cases n) auto

lemma check_minSimilarity_not_num: "\<forall>v. n \<noteq> JNum v \<Longrightarrow> check_minSimilarity n \<noteq> []"
  by (cases n) auto

lemma parse_rejects:
  assumes "schema_issues i \<noteq> []"
  shows "semanticSearchSchema_parse rt i = Inl (ZodError (schema_issues i))"
  using assms
  by (auto simp: semanticSearchSchema_parse_def schema_issues_def Let_def split: jsnum.splits option.splits)

lemma parse_accepts:
  assumes "semanticSearchSchema_parse rt i = Inr validated"
  shows "schema_issues i = [] \<and> query validated = sanitizePrompt rt (in_query i) \<and>
         category validated = in_category i \<and> brand validated = in_brand i \<and>
         (case in_limit i of None \<Rightarrow> JNum 10 | Some n \<Rightarrow> n) = JNum (of_int (limit validated)) \<and>
         (case in_minSimilarity i of None \<Rightarrow> JNum 0.5 | Some n \<Rightarrow> n) = JNum (minSimilarity validated)"
  using assms
  apply (simp add: semanticSearchSchema_parse_def schema_issues_def Let_def split: jsnum.splits option.splits if_splits)
  apply auto
  done

lemma parse_limit_range:
  assumes "semanticSearchSchema_parse rt i = Inr validated"
  shows "1 \<le> limit validated \<and> limit validated \<le> 50 \<and>
         0 \<le> minSimilarity validated \<and> minSimilarity validated \<le> 1"
proof -
  from parse_accepts[OF assms] have
    i: "schema_issues i = []" and
    l: "(case in_limit i of None \<Rightarrow> JNum 10 | Some n \<Rightarrow> n) = JNum (of_int (limit validated))" and
    m: "(case in_minSimilarity i of None \<Rightarrow> JNum 0.5 | Some n \<Rightarrow> n) = JNum (minSimilarity validated)"
    by auto
  from i l have "check_limit (JNum (of_int (limit validated))) = []"
    by (simp add: schema_issues_def)
  then have a: "1 \<le> limit validated \<and> limit validated \<le> 50"
    by (auto split: if_splits)
  from i m have "check_minSimilarity (JNum (minSimilarity validated)) = []"
    by (simp add: schema_issues_def)
  then have "0 \<le> minSimilarity validated \<and> minSimilarity validated \<le> 1"
    by (auto split: if_splits)
  with a show ?thesis by simp
qed

lemma handler_rejects:
  assumes "schema_issues (route_input rt q) \<noteq> []"
  shows "search_handler rt e auth q =
           \<lparr>effects = [], response = Inl (ZodError (schema_issues (route_input rt q)))\<rparr>"
  by (simp add: search_handler_def parse_rejects[OF assms])

lemma rejected_inputs:
  assumes "(\<not> truthy (q_query q)) \<or>
    (\<exists>s v. q_limit q = Some s \<and> s \<noteq> [] \<and> parseInt rt s = JNum v \<and> (v \<le> 0 \<or> 50 < v)) \<or>
    (\<exists>s v. q_minSimilarity q = Some s \<and> s \<noteq> [] \<and> parseFloat rt s = JNum v \<and> (v < 0 \<or> 1 < v))"
  shows "schema_issues (route_input rt q) \<noteq> []"
  using assms
  by (auto simp: schema_issues_def route_input_def truthy_def check_query_def split: option.splits)

lemma default_limit:
  assumes p: "semanticSearchSchema_parse rt (route_input rt q) = Inr validated" and n: "q_limit q = None"
  shows "limit validated = 10"
proof -
  from parse_accepts[OF p] n have "JNum 10 = JNum (of_int (limit validated))"
    by (simp add: route_input_def truthy_def)
  then have "(of_int (limit validated) :: real) = of_int 10" by simp
  then show "limit validated = 10" by (simp only: of_int_eq_iff)
qed

lemma default_minSimilarity:
  assumes p: "semanticSearchSchema_parse rt (route_input rt q) = Inr validated"
      and n: "q_minSimilarity q = None"
  shows "minSimilarity validated = 0.5"
  using parse_accepts[OF p] n by (simp add: route_input_def truthy_def)

text \<open>
  C10. A request whose query is absent or empty, whose limit parameter is read by
  \<^verbatim>\<open>parseInt\<close> as a number that is not positive or is above 50, or whose
  minSimilarity parameter is read by \<^verbatim>\<open>parseFloat\<close> as a number outside \<open>[0, 1]\<close>,
  is answered with the validation error and without any effect: no request to the
  embedding provider and no statement on the catalog store. When the limit or the
  minSimilarity parameter is absent, the validated request has limit 10 or
  minSimilarity 0.5.
\<close>

theorem search_validation_fails_fast:
  "((\<not> truthy (q_query q)) \<or>
    (\<exists>s v. q_limit q = Some s \<and> s \<noteq> [] \<and> parseInt rt s = JNum v \<and> (v \<le> 0 \<or> 50 < v)) \<or>
    (\<exists>s v. q_minSimilarity q = Some s \<and> s \<noteq> [] \<and> parseFloat rt s = JNum v \<and> (v < 0 \<or> 1 < v))
    \<longrightarrow> (\<exists>issues. search_handler rt e auth q = \<lparr>effects = [], response = Inl (ZodError issues)\<rparr>)) \<and>
   (\<forall>validated. semanticSearchSchema_parse rt (route_input rt q) = Inr validated \<longrightarrow>
      (q_limit q = None \<longrightarrow> limit validated = 10) \<and>
      (q_minSimilarity q = None \<longrightarrow> minSimilarity validated = 0.5))"
  using handler_rejects[OF rejected_inputs, of q rt e auth] default_limit[of rt q] default_minSimilarity[of rt q]
  by blast

theorem search_validation_fails_fast_witness:
  "\<not> truthy (q_query ((demo_query '''')\<lparr>q_query := None\<rparr>)) \<and>
   search_handler demo_rt \<lparr>embedContent = provider_2d, d1_products = Inr [headphones]\<rparr> None
       ((demo_query '''')\<lparr>q_query := None\<rparr>) =
     \<lparr>effects = [], response = Inl (ZodError [(''query'', too_small)])\<rparr> \<and>
   search_handler demo_rt \<lparr>embedContent = provider_2d, d1_products = Inr [headphones]\<rparr> None
       ((demo_query ''wireless'')\<lparr>q_limit := Some ''51''\<rparr>) =
     \<lparr>effects = [], response = Inl (ZodError [(''limit'', too_big)])\<rparr> \<and>
   search_handler demo_rt \<lparr>embedContent = provider_2d, d1_products = Inr [headphones]\<rparr> None
       ((demo_query ''wireless'')\<lparr>q_minSimilarity := Some ''1.5''\<rparr>) =
     \<lparr>effects = [], response = Inl (ZodError [(''minSimilarity'', too_big)])\<rparr> \<and>
   semanticSearchSchema_parse demo_rt (route_input demo_rt (demo_query ''wireless'')) =
     Inr \<lparr>query = ''wireless'', limit = 10, minSimilarity = 0.5, category = None, brand = None\<rparr>"
  using search_validation_fails_fast
          [of "(demo_query '''')\<lparr>q_query := None\<rparr>" demo_rt
              "\<lparr>embedContent = provider_2d, d1_products = Inr [headphones]\<rparr>" None]
  by (simp add: handler_defs demo_rt_def demo_query_def)

subsection \<open>Properties of the search route\<close>

lemma main_where:
  "where_holds (and_sql (conditions v)) p \<longleftrightarrow>
     status p = ''active'' \<and>
     (truthy (category v) \<longrightarrow> product.category p = the (category v)) \<and>
     (truthy (brand v) \<longrightarrow> product.brand p = the (brand v))"
  by (auto simp: where_holds_def conditions_def eq_sql_def)

lemma fallback_where:
  "where_holds (and_sql (conditions v @ [name_or_description_like kq])) p \<longleftrightarrow>
     (status p = ''active'' \<and>
      (truthy (category v) \<longrightarrow> product.category p = the (category v)) \<and>
      (truthy (brand v) \<longrightarrow> product.brand p = the (brand v)) \<and>
      like_match kq (name p)) \<or>
     like_match kq (description p)"
  by (auto simp: where_holds_def conditions_def eq_sql_def name_or_description_like_def)

lemma handler_valid:
  assumes "semanticSearchSchema_parse rt (route_input rt q) = Inr validated"
  shows "response (search_handler rt e auth q) =
           (case snd (search_try e auth validated) of
              Inr d \<Rightarrow> Inr d
            | Inl err \<Rightarrow> snd (search_fallback e validated))"
  using assms
  by (auto simp: search_handler_def split: prod.splits sum.splits)

lemma try_provider_down:
  assumes "embedContent e (query validated) = Inl reason"
  shows "search_try e auth validated = ([EmbedRequest (query validated)], Inl (ProviderError reason))"
  using assms by (simp add: search_try_def generateEmbedding_def)

lemma fallback_response:
  "snd (search_fallback e validated) =
     (case d1_products e of
        Inl reason \<Rightarrow> Inl (CatalogStoreError reason)
      | Inr rows \<Rightarrow>
          (let found = take (nat (limit validated))
                 (filter (where_holds (and_sql (conditions validated @
                     [name_or_description_like (''%'' @ query validated @ ''%'')]))) rows)
           in Inr \<lparr>products = map (\<lambda>p. \<lparr>row = p, row_similarity = None\<rparr>) found,
                   total = length found, method_tag = ''keyword-fallback''\<rparr>))"
  by (simp add: search_fallback_def select_where_limit_def select_where_def Let_def split: sum.splits)

lemma try_never_provider_error_out:
  "snd (search_fallback e validated) \<noteq> Inl (ProviderError r)"
  by (simp add: fallback_response Let_def split: sum.splits)

text \<open>
  C3. For a request that passes validation, when the provider rejects the embedding of
  the query, the handler never answers with the provider's error; and when the catalog
  store answers, the response is a success with method \<^verbatim>\<open>keyword-fallback\<close> whose
  products are rows of the catalog, at most \<open>limit\<close> of them, each with a name or a
  description that matches the pattern \<^verbatim>\<open>%query%\<close>.
\<close>

theorem embedding_failure_degrades:
  assumes v: "semanticSearchSchema_parse rt (route_input rt q) = Inr validated"
      and f: "embedContent e (query validated) = Inl reason"
  shows "(\<forall>r. response (search_handler rt e auth q) \<noteq> Inl (ProviderError r)) \<and>
         (\<forall>rows. d1_products e = Inr rows \<longrightarrow>
            (\<exists>found. response (search_handler rt e auth q) =
                 Inr \<lparr>products = map (\<lambda>p. \<lparr>row = p, row_similarity = None\<rparr>) found,
                      total = length found, method_tag = ''keyword-fallback''\<rparr> \<and>
               set found \<subseteq> set rows \<and> int (length found) \<le> limit validated \<and>
               (\<forall>p\<in>set found.
                  like_match (''%'' @ query validated @ ''%'') (name p) \<or>
                  like_match (''%'' @ query validated @ ''%'') (description p))))"
proof -
  have r: "response (search_handler rt e auth q) = snd (search_fallback e validated)"
    by (simp add: handler_valid[OF v] try_provider_down[OF f])
  have a: "\<forall>r. response (search_handler rt e auth q) \<noteq> Inl (ProviderError r)"
    unfolding r by (simp add: try_never_provider_error_out)
  have b: "\<exists>found. response (search_handler rt e auth q) =
                 Inr \<lparr>products = map (\<lambda>p. \<lparr>row = p, row_similarity = None\<rparr>) found,
                      total = length found, method_tag = ''keyword-fallback''\<rparr> \<and>
               set found \<subseteq> set rows \<and> int (length found) \<le> limit validated \<and>
               (\<forall>p\<in>set found.
                  like_match (''%'' @ query validated @ ''%'') (name p) \<or>
                  like_match (''%'' @ query validated @ ''%'') (description p))"
    if rows: "d1_products e = Inr rows" for rows
  proof -
    let ?w = "and_sql (conditions validated @ [name_or_description_like (''%'' @ query validated @ ''%'')])"
    let ?found = "take (nat (limit validated)) (filter (where_holds ?w) rows)"
    have 1: "response (search_handler rt e auth q) =
       Inr \<lparr>products = map (\<lambda>p. \<lparr>row = p, row_similarity = None\<rparr>) ?found,
            total = length ?found, method_tag = ''keyword-fallback''\<rparr>"
      unfolding r by (simp add: fallback_response rows Let_def)
    have 2: "set ?found \<subseteq> set rows"
      using set_take_subset[of "nat (limit validated)" "filter (where_holds ?w) rows"] by auto
    from parse_limit_range[OF v] have "1 \<le> limit validated" by simp
    then have 3: "int (length ?found) \<le> limit validated" by simp
    have 4: "\<forall>p\<in>set ?found. like_match (''%'' @ query validated @ ''%'') (name p) \<or>
                  like_match (''%'' @ query validated @ ''%'') (description p)"
    proof
      fix p assume "p \<in> set ?found"
      then have "p \<in> set (filter (where_holds ?w) rows)" by (rule in_set_takeD)
      then have "where_holds ?w p" by simp
      then show "like_match (''%'' @ query validated @ ''%'') (name p) \<or>
                  like_match (''%'' @ query validated @ ''%'') (description p)"
        unfolding fallback_where by blast
    qed
    from 1 2 3 4 show ?thesis by blast
  qed
  from a b show ?thesis by blast
qed


theorem embedding_failure_degrades_witness:
  "semanticSearchSchema_parse demo_rt (route_input demo_rt (demo_query ''wireless'')) =
     Inr \<lparr>query = ''wireless'', limit = 10, minSimilarity = 0.5, category = None, brand = None\<rparr> \<and>
   embedContent \<lparr>embedContent = provider_down,
       d1_products = Inr [item ''p2'' ''Studio Speaker'' ''active'' None,
                          item ''p3'' ''Wireless Mouse'' ''active'' None]\<rparr> ''wireless'' =
     Inl ''quota exceeded'' \<and>
   search_handler demo_rt
      \<lparr>embedContent = provider_down,
       d1_products = Inr [item ''p2'' ''Studio Speaker'' ''active'' None,
                          item ''p3'' ''Wireless Mouse'' ''active'' None]\<rparr>
      None (demo_query ''wireless'') =
    \<lparr>effects =
       [EmbedRequest ''wireless'',
        SelectProducts
          [Atom (Eq col_status ''active''), And_tok, Atom (Like col_name ''%wireless%''), Or_tok,
           Atom (Like col_description ''%wireless%'')] (Some 10)],
     response =
       Inr \<lparr>products = [\<lparr>row = item ''p3'' ''Wireless Mouse'' ''active'' None, row_similarity = None\<rparr>],
            total = 1, method_tag = ''keyword-fallback''\<rparr>\<rparr>"
  using embedding_failure_degrades
          [of demo_rt "demo_query ''wireless''"
              "\<lparr>query = ''wireless'', limit = 10, minSimilarity = 0.5, category = None, brand = None\<rparr>"
              "\<lparr>embedContent = provider_down,
                d1_products = Inr [item ''p2'' ''Studio Speaker'' ''active'' None,
                                   item ''p3'' ''Wireless Mouse'' ''active'' None]\<rparr>"
              "''quota exceeded''" None]
  by (simp add: handler_defs demo_rt_def demo_query_def provider_down_def item_def)

lemma pool_empty:
  assumes "\<forall>p\<in>set rows. status_in_schema_enum p"
  shows "filter (where_holds (and_sql (conditions validated))) rows = []"
  using assms by (auto simp: filter_empty_conv main_where status_in_schema_enum_def)

lemma fallback_filter_on_schema_rows:
  assumes "\<forall>p\<in>set rows. status_in_schema_enum p"
  shows "filter (where_holds (and_sql (conditions validated @ [name_or_description_like kq]))) rows =
         filter (\<lambda>p. like_match kq (description p)) rows"
  using assms
  by (intro filter_cong) (auto simp: fallback_where status_in_schema_enum_def)

lemma try_on_empty_pool:
  assumes "embedContent e (query validated) = Inr queryVector"
      and "select_where e (and_sql (conditions validated)) = Inr []"
  shows "snd (search_try e auth validated) = Inr \<lparr>products = [], total = 0, method_tag = ''keyword''\<rparr>"
  using assms
  by (simp add: search_try_def generateEmbedding_def Let_def productsWithVectors_def
        findTopKSimilar_def sort_desc_def slice0_def keywordResults_def combinedResults_def)

lemma fallback_on_schema_catalog:
  assumes v: "semanticSearchSchema_parse rt (route_input rt q) = Inr validated"
      and rows: "d1_products e = Inr rows"
      and enum: "\<forall>p\<in>set rows. status_in_schema_enum p"
      and down: "embedContent e (query validated) = Inl reason"
  shows "response (search_handler rt e auth q) =
           (let found = take (nat (limit validated))
                  (filter (\<lambda>p. like_match (''%'' @ query validated @ ''%'') (description p)) rows)
            in Inr \<lparr>products = map (\<lambda>p. \<lparr>row = p, row_similarity = None\<rparr>) found,
                    total = length found, method_tag = ''keyword-fallback''\<rparr>)"
  by (simp add: handler_valid[OF v] try_provider_down[OF down] fallback_response rows
        fallback_filter_on_schema_rows[OF enum])

text \<open>
  On a catalog whose rows all have a status of the schema's enum, the candidate query of
  the route (status \<^verbatim>\<open>active\<close>) selects no row, and whenever the query is embedded
  the handler (its vector path and its keyword path) answers with an empty product list
  and the method \<^verbatim>\<open>keyword\<close>.
\<close>

lemma status_filter_on_schema_catalog:
  assumes v: "semanticSearchSchema_parse rt (route_input rt q) = Inr validated"
      and rows: "d1_products e = Inr rows"
      and enum: "\<forall>p\<in>set rows. status_in_schema_enum p"
  shows "select_where e (and_sql (conditions validated)) = Inr [] \<and>
         (\<forall>queryVector. embedContent e (query validated) = Inr queryVector \<longrightarrow>
            response (search_handler rt e auth q) =
              Inr \<lparr>products = [], total = 0, method_tag = ''keyword''\<rparr>)"
proof -
  have pool: "select_where e (and_sql (conditions validated)) = Inr []"
    by (simp add: select_where_def rows pool_empty[OF enum])
  have ok: "response (search_handler rt e auth q) =
              Inr \<lparr>products = [], total = 0, method_tag = ''keyword''\<rparr>"
    if "embedContent e (query validated) = Inr queryVector" for queryVector
    by (simp add: handler_valid[OF v] try_on_empty_pool[OF that pool])
  from pool ok show ?thesis by blast
qed

lemma status_filter_on_schema_catalog_example:
  "list_all status_in_schema_enum [headphones] \<and>
   select_where \<lparr>embedContent = provider_2d, d1_products = Inr [headphones]\<rparr>
     (and_sql (conditions \<lparr>query = ''headphones'', limit = 10, minSimilarity = 0.5,
                            category = None, brand = None\<rparr>)) = Inr [] \<and>
   response
     (search_handler demo_rt \<lparr>embedContent = provider_2d, d1_products = Inr [headphones]\<rparr> None
        (demo_query ''headphones'')) =
     Inr \<lparr>products = [], total = 0, method_tag = ''keyword''\<rparr>"
proof -
  let ?e = "\<lparr>embedContent = provider_2d, d1_products = Inr [headphones]\<rparr>"
  let ?v = "\<lparr>query = ''headphones'', limit = 10, minSimilarity = 0.5,
             category = None, brand = None\<rparr>"
  have v: "semanticSearchSchema_parse demo_rt (route_input demo_rt (demo_query ''headphones'')) =
             Inr ?v"
    by (simp add: semanticSearchSchema_parse_def schema_issues_def route_input_def truthy_def
          check_query_def demo_rt_def demo_query_def)
  have r: "d1_products ?e = Inr [headphones]" by simp
  have en: "\<forall>p\<in>set [headphones]. status_in_schema_enum p"
    by (simp add: status_in_schema_enum_def headphones_def)
  have emb: "embedContent ?e (query ?v) = Inr [1, 0]" by (simp add: provider_2d_def)
  from status_filter_on_schema_catalog[OF v r en, where auth = None] emb
  have "select_where ?e (and_sql (conditions ?v)) = Inr []"
    and "response (search_handler demo_rt ?e None (demo_query ''headphones'')) =
       Inr \<lparr>products = [], total = 0, method_tag = ''keyword''\<rparr>"
    by blast+
  with en show ?thesis by (simp only: list_all_iff)
qed

text \<open>
  C1. On a catalog whose rows all have a status of the schema's enum, the search is to
  return an empty product list on every path: the vector path, the keyword path of the
  request and the fallback query, each of which asks for the status \<^verbatim>\<open>active\<close>. The
  two paths of the \<^verbatim>\<open>try\<close> block do (\<open>status_filter_on_schema_catalog\<close>). The
  fallback query does not. The \<^verbatim>\<open>catch\<close> block builds the same conditions as the
  \<^verbatim>\<open>try\<close> block and adds the pair of LIKE tests to them, but the condition it sends
  is the text \<^verbatim>\<open>status = 'active' and name LIKE q OR description LIKE q\<close>, in which
  the OR binds weaker than the AND. Here the provider rejects the embedding, the one row
  of the catalog has the status \<^verbatim>\<open>in_stock\<close> and a description that holds the query,
  and the search for \<^verbatim>\<open>headphones\<close> returns the row.
\<close>

theorem status_filter_fallback_failing_input:
  "status_in_schema_enum headphones \<and>
   search_handler demo_rt \<lparr>embedContent = provider_down, d1_products = Inr [headphones]\<rparr> None
       (demo_query ''headphones'') =
     \<lparr>effects =
        [EmbedRequest ''headphones'',
         SelectProducts
           [Atom (Eq col_status ''active''), And_tok, Atom (Like col_name ''%headphones%''),
            Or_tok, Atom (Like col_description ''%headphones%'')] (Some 10)],
      response =
        Inr \<lparr>products = [\<lparr>row = headphones, row_similarity = None\<rparr>], total = 1,
             method_tag = ''keyword-fallback''\<rparr>\<rparr>"
  by (simp add: handler_defs demo_rt_def demo_query_def provider_down_def headphones_def
        status_in_schema_enum_def)

lemma try_scoring_fails:
  assumes "embedContent e (query validated) = Inr queryVector"
      and "d1_products e = Inr rows"
      and "findTopKSimilar queryVector
             (productsWithVectors (filter (where_holds (and_sql (conditions validated))) rows))
             (limit validated * 2) = Inl err"
  shows "snd (search_try e auth validated) = Inl err"
  using assms
  by (simp add: search_try_def generateEmbedding_def select_where_def Let_def)

lemma try_scoring_succeeds:
  assumes "embedContent e (query validated) = Inr queryVector"
      and "d1_products e = Inr rows"
      and "findTopKSimilar queryVector
             (productsWithVectors (filter (where_holds (and_sql (conditions validated))) rows))
             (limit validated * 2) = Inr ranked"
  shows "\<exists>d. snd (search_try e auth validated) = Inr d \<and> method_tag d \<noteq> ''keyword-fallback'' \<and>
           products d =
             combinedResults (limit validated)
               (filter (\<lambda>r. similarity r \<ge> minSimilarity validated) ranked)
               (keywordResults validated (filter (where_holds (and_sql (conditions validated))) rows))"
  using assms
  by (simp add: search_try_def generateEmbedding_def select_where_def Let_def)

lemma fallback_tag:
  assumes "d1_products e = Inr rows"
  shows "\<exists>d. snd (search_fallback e validated) = Inr d \<and> method_tag d = ''keyword-fallback''"
  using assms by (simp add: fallback_response Let_def)

text \<open>
  C4, as the code has it. The route passes the stored vector of every row of the pool
  that has one to \<open>findTopKSimilar\<close>, whatever its length. When one of them has not the
  length of the query vector, the scoring raises the length error of
  \<open>cosineSimilarity\<close>, the handler catches it and answers with the fallback query
  (method \<^verbatim>\<open>keyword-fallback\<close>); when all have that length, the scoring succeeds and
  the answer is that of the \<^verbatim>\<open>try\<close> block (method \<^verbatim>\<open>hybrid\<close> or \<^verbatim>\<open>keyword\<close>).
\<close>

theorem stored_vectors_not_dimension_checked:
  assumes v: "semanticSearchSchema_parse rt (route_input rt q) = Inr validated"
      and emb: "embedContent e (query validated) = Inr queryVector"
      and rows: "d1_products e = Inr rows"
  shows "let pool = filter (where_holds (and_sql (conditions validated))) rows in
         map vector (productsWithVectors pool) = List.map_filter vectorEmbedding pool \<and>
         ((\<exists>c\<in>set (productsWithVectors pool). length (vector c) \<noteq> length queryVector) \<longrightarrow>
            findTopKSimilar queryVector (productsWithVectors pool) (limit validated * 2) =
              Inl VectorLengthError \<and>
            (\<exists>d. response (search_handler rt e auth q) = Inr d \<and>
                 method_tag d = ''keyword-fallback'')) \<and>
         ((\<forall>c\<in>set (productsWithVectors pool). length (vector c) = length queryVector) \<longrightarrow>
            (\<exists>d. response (search_handler rt e auth q) = Inr d \<and>
                 method_tag d \<noteq> ''keyword-fallback''))"
proof -
  let ?pool = "filter (where_holds (and_sql (conditions validated))) rows"
  have a: "map vector (productsWithVectors ?pool) = List.map_filter vectorEmbedding ?pool"
    by (simp add: productsWithVectors_def List.map_filter_def comp_def)
  have b: "findTopKSimilar queryVector (productsWithVectors ?pool) (limit validated * 2) =
              Inl VectorLengthError \<and>
            (\<exists>d. response (search_handler rt e auth q) = Inr d \<and>
                 method_tag d = ''keyword-fallback'')"
    if m: "\<exists>c\<in>set (productsWithVectors ?pool). length (vector c) \<noteq> length queryVector"
  proof -
    have f: "findTopKSimilar queryVector (productsWithVectors ?pool) (limit validated * 2) =
              Inl VectorLengthError"
      by (simp add: findTopKSimilar_def score_all_mismatch[OF m])
    from try_scoring_fails[OF emb rows f]
    have "response (search_handler rt e auth q) = snd (search_fallback e validated)"
      by (simp add: handler_valid[OF v])
    with fallback_tag[OF rows] f show ?thesis by simp
  qed
  have c: "\<exists>d. response (search_handler rt e auth q) = Inr d \<and> method_tag d \<noteq> ''keyword-fallback''"
    if m: "\<forall>c\<in>set (productsWithVectors ?pool). length (vector c) = length queryVector"
  proof -
    from findTopKSimilar_defined[OF m] obtain ranked where
      "findTopKSimilar queryVector (productsWithVectors ?pool) (limit validated * 2) = Inr ranked"
      by blast
    from try_scoring_succeeds[OF emb rows this] obtain d where
      "snd (search_try e auth validated) = Inr d" "method_tag d \<noteq> ''keyword-fallback''"
      by blast
    then show ?thesis by (simp add: handler_valid[OF v])
  qed
  from a b c show ?thesis unfolding Let_def by blast
qed

theorem stored_vectors_not_dimension_checked_witness:
  "search_handler demo_rt
      \<lparr>embedContent = provider_2d,
       d1_products = Inr [item ''p1'' ''Studio Speaker'' ''active'' (Some [3, 4])]\<rparr>
      None (demo_query ''headphones'') =
    \<lparr>effects =
       [EmbedRequest ''headphones'', SelectProducts [Atom (Eq col_status ''active'')] None],
     response =
       Inr \<lparr>products =
              [\<lparr>row = item ''p1'' ''Studio Speaker'' ''active'' (Some [3, 4]),
                row_similarity = Some (3 / 5)\<rparr>],
            total = 1, method_tag = ''hybrid''\<rparr>\<rparr>"
  using stored_vectors_not_dimension_checked
          [where rt = demo_rt and q = "demo_query ''headphones''"
             and e = "\<lparr>embedContent = provider_2d,
                        d1_products = Inr [item ''p1'' ''Studio Speaker'' ''active'' (Some [3, 4])]\<rparr>"
             and rows = "[item ''p1'' ''Studio Speaker'' ''active'' (Some [3, 4])]"
             and auth = None and queryVector = "[1, 0]"
             and validated = "\<lparr>query = ''headphones'', limit = 10, minSimilarity = 0.5,
                               category = None, brand = None\<rparr>"]
  by (simp add: handler_defs demo_rt_def demo_query_def provider_2d_def item_def)

text \<open>
  The claim as stated fails on a row with a stored vector of three components when the
  query vector has two: the candidate is passed to \<open>findTopKSimilar\<close>, the length error
  is raised there, and the request is answered by the fallback query.
\<close>

theorem stored_vector_length_counterexample:
  "search_handler demo_rt
      \<lparr>embedContent = provider_2d,
       d1_products = Inr [item ''p1'' ''Studio Speaker'' ''active'' (Some [1, 0, 0])]\<rparr>
      None (demo_query ''headphones'') =
    \<lparr>effects =
       [EmbedRequest ''headphones'', SelectProducts [Atom (Eq col_status ''active'')] None,
        SelectProducts
          [Atom (Eq col_status ''active''), And_tok, Atom (Like col_name ''%headphones%''), Or_tok,
           Atom (Like col_description ''%headphones%'')] (Some 10)],
     response = Inr \<lparr>products = [], total = 0, method_tag = ''keyword-fallback''\<rparr>\<rparr> \<and>
   list_ex (\<lambda>c. length (vector c) \<noteq> length [1, 0 :: real])
     (productsWithVectors [item ''p1'' ''Studio Speaker'' ''active'' (Some [1, 0, 0])]) \<and>
   findTopKSimilar [1, 0]
     (productsWithVectors [item ''p1'' ''Studio Speaker'' ''active'' (Some [1, 0, 0])]) 20 =
     Inl VectorLengthError"
  by (simp add: handler_defs demo_rt_def demo_query_def provider_2d_def item_def)

subsection \<open>Properties of the merge\<close>

lemma combinedResults_take:
  assumes "0 \<le> n"
  shows "combinedResults n vectorResults kwResults =
           take (nat n)
             (map (\<lambda>r. \<lparr>row = res_data r, row_similarity = Some (similarity r)\<rparr>) vectorResults @
              map (\<lambda>p. \<lparr>row = p, row_similarity = Some 0.3\<rparr>)
                (filter (\<lambda>p. pid p \<notin> set (map res_id vectorResults)) kwResults))"
  using assms by (simp add: combinedResults_def slice0_def Let_def min_def)

lemma drop_take_append: "drop (length xs) (take k (xs @ ys)) = take (k - length xs) ys"
  unfolding drop_take by simp

lemma merged_all_distinct:
  assumes dv: "distinct (map res_id vectorResults)"
      and dk: "distinct (map pid kwResults)"
      and ids: "\<forall>r\<in>set vectorResults. pid (res_data r) = res_id r"
  shows "distinct (map (pid \<circ> row)
           (map (\<lambda>r. \<lparr>row = res_data r, row_similarity = Some (similarity r)\<rparr>) vectorResults @
            map (\<lambda>p. \<lparr>row = p, row_similarity = Some 0.3\<rparr>)
              (filter (\<lambda>p. pid p \<notin> set (map res_id vectorResults)) kwResults)))"
proof -
  have a: "map (pid \<circ> row) (map (\<lambda>r. \<lparr>row = res_data r, row_similarity = Some (similarity r)\<rparr>)
             vectorResults) = map res_id vectorResults"
    using ids by (simp add: comp_def)
  have b: "map (pid \<circ> row) (map (\<lambda>p. \<lparr>row = p, row_similarity = Some 0.3\<rparr>)
             (filter (\<lambda>p. pid p \<notin> set (map res_id vectorResults)) kwResults)) =
           filter (\<lambda>i. i \<notin> set (map res_id vectorResults)) (map pid kwResults)"
    by (simp add: comp_def filter_map)
  show ?thesis
    unfolding map_append a b using dv dk by (auto simp: distinct_map_filter)
qed

lemma sorted_desc_merged:
  assumes srt: "sorted_wrt (\<lambda>a b. similarity a \<ge> similarity b) vectorResults"
      and low: "\<forall>r\<in>set vectorResults. 0.3 \<le> similarity r"
  shows "sorted_wrt (\<lambda>a b. the (row_similarity a) \<ge> the (row_similarity b))
           (map (\<lambda>r. \<lparr>row = res_data r, row_similarity = Some (similarity r)\<rparr>) vectorResults @
            map (\<lambda>p. \<lparr>row = p, row_similarity = Some 0.3\<rparr>) ks)"
  using srt low by (auto simp: sorted_wrt_append sorted_wrt_map)

text \<open>
  C9, as the code has it. With vector results that are in descending order of score and
  carry distinct ids (each the id of its row), keyword rows with distinct ids, and a
  limit that is not negative, the merged list starts with the vector results, each with
  its score; the entries after them are keyword rows whose id is not among the vector
  results, with the score 0.3; no id occurs twice, and an entry whose id is the id of a
  vector result has that result's score; the list has at most \<open>limit\<close> entries. The
  vector part is in descending order of score, and the whole list is when no vector
  score is below 0.3 (the merged list is not sorted again).
\<close>

theorem merge_step:
  assumes dv: "distinct (map res_id vectorResults)"
      and dk: "distinct (map pid kwResults)"
      and ids: "\<forall>r\<in>set vectorResults. pid (res_data r) = res_id r"
      and srt: "sorted_wrt (\<lambda>a b. similarity a \<ge> similarity b) vectorResults"
      and n: "0 \<le> n"
  shows "let merged = combinedResults n vectorResults kwResults in
           take (length vectorResults) merged =
             take (nat n) (map (\<lambda>r. \<lparr>row = res_data r, row_similarity = Some (similarity r)\<rparr>)
                             vectorResults) \<and>
           map row (drop (length vectorResults) merged) =
             take (nat n - length vectorResults)
               (filter (\<lambda>p. pid p \<notin> set (map res_id vectorResults)) kwResults) \<and>
           (\<forall>m\<in>set (drop (length vectorResults) merged).
              row m \<in> set kwResults \<and> pid (row m) \<notin> set (map res_id vectorResults) \<and>
              row_similarity m = Some 0.3) \<and>
           distinct (map (pid \<circ> row) merged) \<and>
           (\<forall>m\<in>set merged. \<forall>r\<in>set vectorResults.
              pid (row m) = res_id r \<longrightarrow> row_similarity m = Some (similarity r)) \<and>
           int (length merged) \<le> n \<and>
           sorted_wrt (\<lambda>a b. the (row_similarity a) \<ge> the (row_similarity b))
             (take (length vectorResults) merged) \<and>
           ((\<forall>r\<in>set vectorResults. 0.3 \<le> similarity r) \<longrightarrow>
              sorted_wrt (\<lambda>a b. the (row_similarity a) \<ge> the (row_similarity b)) merged)"
proof -
  let ?V = "map (\<lambda>r. \<lparr>row = res_data r, row_similarity = Some (similarity r)\<rparr>) vectorResults"
  let ?K = "map (\<lambda>p. \<lparr>row = p, row_similarity = Some 0.3\<rparr>)
              (filter (\<lambda>p. pid p \<notin> set (map res_id vectorResults)) kwResults)"
  let ?m = "combinedResults n vectorResults kwResults"
  have m: "?m = take (nat n) (?V @ ?K)" by (rule combinedResults_take[OF n])
  have lenV: "length ?V = length vectorResults" by simp
  have 1: "take (length vectorResults) ?m = take (nat n) ?V"
    unfolding m by (simp add: take_take min_def take_all_iff)
  have dr: "drop (length vectorResults) ?m = take (nat n - length vectorResults) ?K"
    unfolding m using drop_take_append[of ?V "nat n" ?K] by (simp only: lenV)
  have 8: "map row (drop (length vectorResults) ?m) =
             take (nat n - length vectorResults)
               (filter (\<lambda>p. pid p \<notin> set (map res_id vectorResults)) kwResults)"
    unfolding dr by (simp add: take_map comp_def)
  have sub: "set ?m \<subseteq> set (?V @ ?K)" unfolding m by (rule set_take_subset)
  have 2: "\<forall>m\<in>set (drop (length vectorResults) ?m).
              row m \<in> set kwResults \<and> pid (row m) \<notin> set (map res_id vectorResults) \<and>
              row_similarity m = Some 0.3"
  proof
    fix x assume "x \<in> set (drop (length vectorResults) ?m)"
    moreover have "drop (length ?V) (take (nat n) (?V @ ?K)) = take (nat n - length ?V) ?K"
      by (rule drop_take_append)
    ultimately have "x \<in> set (take (nat n - length ?V) ?K)"
      unfolding m by (simp only: lenV)
    then have "x \<in> set ?K" by (rule in_set_takeD)
    then show "row x \<in> set kwResults \<and> pid (row x) \<notin> set (map res_id vectorResults) \<and>
              row_similarity x = Some 0.3" by auto
  qed
  have dall: "distinct (map (pid \<circ> row) (?V @ ?K))"
    by (rule merged_all_distinct[OF dv dk ids])
  have 3: "distinct (map (pid \<circ> row) ?m)"
    unfolding m take_map[symmetric] using dall by (rule distinct_take)
  have 4: "\<forall>m\<in>set ?m. \<forall>r\<in>set vectorResults.
              pid (row m) = res_id r \<longrightarrow> row_similarity m = Some (similarity r)"
  proof (intro ballI impI)
    fix x r assume x: "x \<in> set ?m" and r: "r \<in> set vectorResults" and e: "pid (row x) = res_id r"
    from x sub have "x \<in> set ?V \<or> x \<in> set ?K" by auto
    then show "row_similarity x = Some (similarity r)"
    proof
      assume "x \<in> set ?V"
      then obtain r' where r': "r' \<in> set vectorResults"
        "x = \<lparr>row = res_data r', row_similarity = Some (similarity r')\<rparr>" by auto
      with ids e have "res_id r' = res_id r" by simp
      with dv r r' have "r' = r" by (meson distinct_map inj_onD)
      with r' show ?thesis by simp
    next
      assume "x \<in> set ?K"
      then have "pid (row x) \<notin> set (map res_id vectorResults)" by auto
      with r e show ?thesis by simp
    qed
  qed
  have 5: "int (length ?m) \<le> n" unfolding m using n by simp
  have sv: "sorted_wrt (\<lambda>a b. the (row_similarity a) \<ge> the (row_similarity b)) ?V"
    using srt by (simp add: sorted_wrt_map)
  have 6: "sorted_wrt (\<lambda>a b. the (row_similarity a) \<ge> the (row_similarity b))
             (take (length vectorResults) ?m)"
    unfolding 1 using sv by (rule sorted_wrt_take)
  have 7: "sorted_wrt (\<lambda>a b. the (row_similarity a) \<ge> the (row_similarity b)) ?m"
    if "\<forall>r\<in>set vectorResults. 0.3 \<le> similarity r"
    unfolding m using sorted_desc_merged[OF srt that] by (rule sorted_wrt_take)
  from 1 8 2 3 4 5 6 7 show ?thesis unfolding Let_def by blast
qed

theorem merge_step_witness:
  "distinct (map res_id
      [\<lparr>similarity = (0.9 :: real), res_id = ''p1'', res_data = item ''p1'' ''Studio Speaker'' ''active'' (Some [1, 0])\<rparr>,
       \<lparr>similarity = 0.6, res_id = ''p2'', res_data = item ''p2'' ''Headphones'' ''active'' (Some [3, 4])\<rparr>]) \<and>
   distinct (map pid
      [item ''p2'' ''Headphones'' ''active'' (Some [3, 4]), item ''p3'' ''Headphones Stand'' ''active'' None]) \<and>
   combinedResults 3
      [\<lparr>similarity = (0.9 :: real), res_id = ''p1'', res_data = item ''p1'' ''Studio Speaker'' ''active'' (Some [1, 0])\<rparr>,
       \<lparr>similarity = 0.6, res_id = ''p2'', res_data = item ''p2'' ''Headphones'' ''active'' (Some [3, 4])\<rparr>]
      [item ''p2'' ''Headphones'' ''active'' (Some [3, 4]), item ''p3'' ''Headphones Stand'' ''active'' None] =
     [\<lparr>row = item ''p1'' ''Studio Speaker'' ''active'' (Some [1, 0]), row_similarity = Some 0.9\<rparr>,
      \<lparr>row = item ''p2'' ''Headphones'' ''active'' (Some [3, 4]), row_similarity = Some 0.6\<rparr>,
      \<lparr>row = item ''p3'' ''Headphones Stand'' ''active'' None, row_similarity = Some 0.3\<rparr>] \<and>
   distinct (map (pid \<circ> row)
     (combinedResults 3
        [\<lparr>similarity = (0.9 :: real), res_id = ''p1'', res_data = item ''p1'' ''Studio Speaker'' ''active'' (Some [1, 0])\<rparr>,
         \<lparr>similarity = 0.6, res_id = ''p2'', res_data = item ''p2'' ''Headphones'' ''active'' (Some [3, 4])\<rparr>]
        [item ''p2'' ''Headphones'' ''active'' (Some [3, 4]), item ''p3'' ''Headphones Stand'' ''active'' None]))"
proof -
  let ?V = "[\<lparr>similarity = (0.9 :: real), res_id = ''p1'', res_data = item ''p1'' ''Studio Speaker'' ''active'' (Some [1, 0])\<rparr>,
             \<lparr>similarity = 0.6, res_id = ''p2'', res_data = item ''p2'' ''Headphones'' ''active'' (Some [3, 4])\<rparr>]"
  let ?K = "[item ''p2'' ''Headphones'' ''active'' (Some [3, 4]), item ''p3'' ''Headphones Stand'' ''active'' None]"
  have dv: "distinct (map res_id ?V)" by simp
  have dk: "distinct (map pid ?K)" by (simp add: item_def)
  have ids: "\<forall>r\<in>set ?V. pid (res_data r) = res_id r" by (simp add: item_def)
  have srt: "sorted_wrt (\<lambda>a b. similarity a \<ge> similarity b) ?V" by simp
  have n: "(0::int) \<le> 3" by simp
  from merge_step[OF dv dk ids srt n]
  have d: "distinct (map (pid \<circ> row) (combinedResults 3 ?V ?K))"
    unfolding Let_def by blast
  have v: "combinedResults 3 ?V ?K =
     [\<lparr>row = item ''p1'' ''Studio Speaker'' ''active'' (Some [1, 0]), row_similarity = Some 0.9\<rparr>,
      \<lparr>row = item ''p2'' ''Headphones'' ''active'' (Some [3, 4]), row_similarity = Some 0.6\<rparr>,
      \<lparr>row = item ''p3'' ''Headphones Stand'' ''active'' None, row_similarity = Some 0.3\<rparr>]"
    by (simp add: combinedResults_def slice0_def item_def)
  from dv dk d v show ?thesis by (intro conjI)
qed

text \<open>
  The claim as stated fails on the order: with \<^verbatim>\<open>minSimilarity=0\<close> a vector result
  with the score 0 stands before a keyword row with the score 0.3.
\<close>

theorem merge_order_counterexample:
  "response
     (search_handler demo_rt
        \<lparr>embedContent = provider_2d,
         d1_products = Inr [item ''p1'' ''Studio Speaker'' ''active'' (Some [0, 1]),
                            item ''p2'' ''Headphones Stand'' ''active'' None]\<rparr>
        None ((demo_query ''headphones'')\<lparr>q_minSimilarity := Some ''0''\<rparr>)) =
     Inr \<lparr>products =
            [\<lparr>row = item ''p1'' ''Studio Speaker'' ''active'' (Some [0, 1]), row_similarity = Some 0\<rparr>,
             \<lparr>row = item ''p2'' ''Headphones Stand'' ''active'' None, row_similarity = Some 0.3\<rparr>],
          total = 2, method_tag = ''hybrid''\<rparr> \<and>
   \<not> sorted_wrt (\<lambda>a b. the (row_similarity a) \<ge> the (row_similarity b))
       [\<lparr>row = item ''p1'' ''Studio Speaker'' ''active'' (Some [0, 1]), row_similarity = Some 0\<rparr>,
        \<lparr>row = item ''p2'' ''Headphones Stand'' ''active'' None, row_similarity = Some 0.3\<rparr>]"
  by (simp add: handler_defs demo_rt_def demo_query_def provider_2d_def item_def)

subsection \<open>Properties of the batch vectorization\<close>

lemma promise_all_rejects:
  "\<exists>r\<in>set rs. \<exists>reason. r = Inl reason \<Longrightarrow> \<exists>reason. promise_all rs = Inl (ProviderError reason)"
proof (induction rs)
  case Nil
  then show ?case by simp
next
  case (Cons r rs)
  then show ?case by (cases r) (auto split: sum.splits)
qed

lemma promise_all_fulfils:
  "\<forall>r\<in>set rs. \<exists>v. r = Inr v \<Longrightarrow> promise_all rs = Inr (map projr rs)"
proof (induction rs)
  case Nil
  then show ?case by simp
next
  case (Cons r rs)
  then show ?case by (cases r) auto
qed

lemma persist_batch_all:
  assumes "length embeddings = length ps"
      and "\<forall>p\<in>set ps. rejected (pid p) = None"
  shows "processedCount (persist_batch rejected ps embeddings st) = processedCount st + length ps \<and>
         batch_errors (persist_batch rejected ps embeddings st) = batch_errors st \<and>
         map pid (table (persist_batch rejected ps embeddings st)) = map pid (table st) \<and>
         (\<forall>r\<in>set (table (persist_batch rejected ps embeddings st)).
            (pid r \<in> pid ` set ps \<longrightarrow> vectorEmbedding r \<noteq> None) \<and>
            (pid r \<notin> pid ` set ps \<longrightarrow> r \<in> set (table st)))"
  using assms
proof (induction ps arbitrary: embeddings st)
  case Nil
  then show ?case by simp
next
  case (Cons p ps)
  then obtain e es where e: "embeddings = e # es" "length es = length ps"
    by (cases embeddings) auto
  let ?st = "st\<lparr>table := update_embedding (pid p) e (table st),
                 processedCount := processedCount st + 1\<rparr>"
  have step: "persist_batch rejected (p # ps) embeddings st = persist_batch rejected ps es ?st"
    using Cons.prems e by simp
  from Cons.prems have "\<forall>p\<in>set ps. rejected (pid p) = None" by simp
  from Cons.IH[OF e(2) this, of ?st]
  have ih: "processedCount (persist_batch rejected ps es ?st) = processedCount ?st + length ps"
    "batch_errors (persist_batch rejected ps es ?st) = batch_errors ?st"
    "map pid (table (persist_batch rejected ps es ?st)) = map pid (table ?st)"
    "\<forall>r\<in>set (table (persist_batch rejected ps es ?st)).
        (pid r \<in> pid ` set ps \<longrightarrow> vectorEmbedding r \<noteq> None) \<and>
        (pid r \<notin> pid ` set ps \<longrightarrow> r \<in> set (table ?st))"
    by blast+
  have ids: "map pid (table ?st) = map pid (table st)"
    by (simp add: update_embedding_def comp_def)
  have upd: "\<forall>r\<in>set (table ?st).
      (pid r = pid p \<longrightarrow> vectorEmbedding r \<noteq> None) \<and> (pid r \<noteq> pid p \<longrightarrow> r \<in> set (table st))"
    by (auto simp: update_embedding_def)
  show ?case
    unfolding step using ih ids upd by auto
qed

text \<open>
  C2, as the code has it. A batch is embedded by one \<^verbatim>\<open>Promise.all\<close>: when the
  provider rejects the text of one item of the batch, nothing of the batch is persisted
  or counted and the error is logged once for the batch; when it fulfils every text of
  the batch (and no UPDATE is rejected), every item of the batch gets an embedding, the
  other rows stay as they were, and the count grows by the size of the batch.
\<close>

theorem batch_is_all_or_nothing:
  assumes len: "length batch = length batchProducts"
  shows "((\<exists>t\<in>set batch. \<exists>reason. provider t = Inl reason) \<longrightarrow>
            table (process_batch provider rejected batch batchProducts st) = table st \<and>
            processedCount (process_batch provider rejected batch batchProducts st) =
              processedCount st \<and>
            (\<exists>reason. batch_errors (process_batch provider rejected batch batchProducts st) =
               batch_errors st @ [ProviderError reason])) \<and>
         ((\<forall>t\<in>set batch. \<exists>v. provider t = Inr v) \<and>
          (\<forall>p\<in>set batchProducts. rejected (pid p) = None) \<longrightarrow>
            processedCount (process_batch provider rejected batch batchProducts st) =
              processedCount st + length batchProducts \<and>
            map pid (table (process_batch provider rejected batch batchProducts st)) =
              map pid (table st) \<and>
            (\<forall>r\<in>set (table (process_batch provider rejected batch batchProducts st)).
               (pid r \<in> pid ` set batchProducts \<longrightarrow> vectorEmbedding r \<noteq> None) \<and>
               (pid r \<notin> pid ` set batchProducts \<longrightarrow> r \<in> set (table st))))"
proof (intro conjI impI)
  assume "\<exists>t\<in>set batch. \<exists>reason. provider t = Inl reason"
  then have "\<exists>r\<in>set (map provider batch). \<exists>reason. r = Inl reason" by auto
  from promise_all_rejects[OF this] obtain reason where
    "generateBatchEmbeddings provider batch = Inl (ProviderError reason)"
    by (auto simp: generateBatchEmbeddings_def)
  then have p: "process_batch provider rejected batch batchProducts st =
      st\<lparr>batch_errors := batch_errors st @ [ProviderError reason]\<rparr>"
    by (simp add: process_batch_def)
  show "table (process_batch provider rejected batch batchProducts st) = table st"
    unfolding p by simp
  show "processedCount (process_batch provider rejected batch batchProducts st) = processedCount st"
    unfolding p by simp
  show "\<exists>reason. batch_errors (process_batch provider rejected batch batchProducts st) =
               batch_errors st @ [ProviderError reason]"
    unfolding p by simp
next
  assume a: "(\<forall>t\<in>set batch. \<exists>v. provider t = Inr v) \<and>
          (\<forall>p\<in>set batchProducts. rejected (pid p) = None)"
  then have "\<forall>r\<in>set (map provider batch). \<exists>v. r = Inr v" by auto
  from promise_all_fulfils[OF this]
  have g: "generateBatchEmbeddings provider batch = Inr (map projr (map provider batch))"
    by (simp add: generateBatchEmbeddings_def)
  have p: "process_batch provider rejected batch batchProducts st =
      persist_batch rejected batchProducts (map projr (map provider batch)) st"
    by (simp add: process_batch_def g)
  have l: "length (map projr (map provider batch)) = length batchProducts"
    using len by simp
  from a have r: "\<forall>p\<in>set batchProducts. rejected (pid p) = None" by simp
  note pb = persist_batch_all[OF l r, of st]
  show "processedCount (process_batch provider rejected batch batchProducts st) =
              processedCount st + length batchProducts"
    unfolding p using pb by blast
  show "map pid (table (process_batch provider rejected batch batchProducts st)) =
              map pid (table st)"
    unfolding p using pb by blast
  show "\<forall>r\<in>set (table (process_batch provider rejected batch batchProducts st)).
               (pid r \<in> pid ` set batchProducts \<longrightarrow> vectorEmbedding r \<noteq> None) \<and>
               (pid r \<notin> pid ` set batchProducts \<longrightarrow> r \<in> set (table st))"
    unfolding p using pb by blast
qed

theorem batch_is_all_or_nothing_witness:
  "length (map combineProductFields (take 10 catalog12)) = length (take 10 catalog12) \<and>
   list_ex (\<lambda>t. provider_item7_fails t = Inl ''provider error'')
     (map combineProductFields (take 10 catalog12)) \<and>
   table (process_batch provider_item7_fails never_rejected
            (map combineProductFields (take 10 catalog12)) (take 10 catalog12)
            \<lparr>table = catalog12, processedCount = 0, batch_errors = []\<rparr>) = catalog12 \<and>
   processedCount (process_batch provider_item7_fails never_rejected
            (map combineProductFields (take 10 catalog12)) (take 10 catalog12)
            \<lparr>table = catalog12, processedCount = 0, batch_errors = []\<rparr>) = 0 \<and>
   processedCount (process_batch provider_item7_fails never_rejected
            (map combineProductFields (drop 10 catalog12)) (drop 10 catalog12)
            \<lparr>table = catalog12, processedCount = 0, batch_errors = []\<rparr>) = 2"
proof -
  let ?st = "\<lparr>table = catalog12, processedCount = 0, batch_errors = []\<rparr>"
  have len: "length (map combineProductFields (take 10 catalog12)) = length (take 10 catalog12)"
    by simp
  have ex: "list_ex (\<lambda>t. provider_item7_fails t = Inl ''provider error'')
              (map combineProductFields (take 10 catalog12))"
    by (simp add: catalog12_def sku_def combineProductFields_def provider_item7_fails_def)
  then have fails: "\<exists>t\<in>set (map combineProductFields (take 10 catalog12)).
                       \<exists>reason. provider_item7_fails t = Inl reason"
    unfolding list_ex_iff by blast
  from batch_is_all_or_nothing[OF len, of provider_item7_fails never_rejected ?st] fails
  have a: "table (process_batch provider_item7_fails never_rejected
              (map combineProductFields (take 10 catalog12)) (take 10 catalog12) ?st) = table ?st"
    and b: "processedCount (process_batch provider_item7_fails never_rejected
              (map combineProductFields (take 10 catalog12)) (take 10 catalog12) ?st) =
            processedCount ?st"
    by blast+
  have len2: "length (map combineProductFields (drop 10 catalog12)) = length (drop 10 catalog12)"
    by simp
  have ok: "(\<forall>t\<in>set (map combineProductFields (drop 10 catalog12)).
               \<exists>v. provider_item7_fails t = Inr v) \<and>
            (\<forall>p\<in>set (drop 10 catalog12). never_rejected (pid p) = None)"
    by (simp add: catalog12_def sku_def combineProductFields_def provider_item7_fails_def
          never_rejected_def)
  from batch_is_all_or_nothing[OF len2, of provider_item7_fails never_rejected ?st] ok
  have "processedCount (process_batch provider_item7_fails never_rejected
              (map combineProductFields (drop 10 catalog12)) (drop 10 catalog12) ?st) =
            processedCount ?st + length (drop 10 catalog12)"
    by blast
  then have c: "processedCount (process_batch provider_item7_fails never_rejected
              (map combineProductFields (drop 10 catalog12)) (drop 10 catalog12) ?st) = 2"
    by (simp add: catalog12_def)
  from len ex a b c show ?thesis by simp
qed

text \<open>
  The claim as stated fails on its own scenario: of twelve items in batches of ten, with
  the embedding of item 7 rejected, the items 1 to 10 are left without an embedding, the
  items 11 and 12 are embedded, and the run reports 2 of 12.
\<close>

theorem partial_batch_failure_counterexample:
  "length (productsToVectorize catalog12) = 12 \<and>
   processedCount (vectorizeProducts provider_item7_fails never_rejected catalog12) = 2 \<and>
   map (\<lambda>p. (pid p, vectorEmbedding p))
     (table (vectorizeProducts provider_item7_fails never_rejected catalog12)) =
     [(''01'', None), (''02'', None), (''03'', None), (''04'', None), (''05'', None),
      (''06'', None), (''07'', None), (''08'', None), (''09'', None), (''10'', None),
      (''11'', Some [1, 0]), (''12'', Some [1, 0])] \<and>
   batch_errors (vectorizeProducts provider_item7_fails never_rejected catalog12) =
     [ProviderError ''provider error'']"
  by (simp add: vectorizeProducts_def productsToVectorize_def catalog12_def sku_def
        combineProductFields_def provider_item7_fails_def never_rejected_def
        vectorize_loop.simps batchSize_def slice_def process_batch_def
        generateBatchEmbeddings_def update_embedding_def Let_def)


end
